theory Spec2Isabelle
  imports Main "HOL-Library.Word"
begin

section \<open>Messages of the create-order saga (proto/*.proto)\<close>

text \<open>
  Every protobuf message is a record whose fields carry the message's name as a prefix
  (several messages share the field names \<open>Id\<close>, \<open>OrderId\<close> and \<open>Status\<close>).
  A Go \<open>string\<close> is a \<open>string\<close>, \<open>int32\<close> is a 32-bit word.  Enumerations keep
  the names of the generated Go constants, including the zero value \<open>..._UNSPECIFIED\<close>.

  A field that holds a sub-message is a pointer in the generated Go code, nil when the
  message was sent without it: in a request such a field is an \<open>option\<close>, \<open>None\<close> for
  nil.  The handlers receive their requests decoded from the wire, so the request itself
  and the elements of a repeated field are never nil.  In a stored record the
  sub-message fields are never nil either: a handler stores such a pointer only after it
  has dereferenced it.
\<close>

text \<open>
  A \<open>float\<close> field is a Go \<open>float32\<close>: an IEEE-754 binary32 value, kept as its 32 bits
  (as protobuf encodes it), so that copying and comparing amounts is exact.
\<close>

type_synonym float32 = "32 word"

record OrderID =
  OrderID_Id :: string

record Item =
  Item_ProductId :: string
  Item_Quantity :: "32 word"
  Item_Price :: float32

record OrderDetails =
  OrderDetails_UserId :: string
  OrderDetails_Items :: "Item list"

record PaymentInfo =
  PaymentInfo_CardNumber :: string
  PaymentInfo_ExpiryDate :: string
  PaymentInfo_Cvv :: string
  PaymentInfo_Amount :: float32

record ShippingAddress =
  ShippingAddress_Street :: string
  ShippingAddress_City :: string
  ShippingAddress_State :: string
  ShippingAddress_ZipCode :: string
  ShippingAddress_Country :: string

record CompensationResponse =
  CompensationResponse_Success :: bool
  CompensationResponse_Message :: string

subsection \<open>order.proto\<close>

datatype OrderStatus =
  OrderStatus_ORDER_STATUS_UNSPECIFIED
  | OrderStatus_PENDING
  | OrderStatus_COMPLETED
  | OrderStatus_CANCELLED

record Order =
  Order_Id :: string
  Order_UserId :: string
  Order_Items :: "Item list"
  Order_TotalAmount :: float32
  Order_Status :: OrderStatus

record CreateOrderRequest =
  CreateOrderRequest_Details :: "OrderDetails option"

text \<open>
  \<open>CreateOrderResponse.OrderId\<close> is such a pointer too: the orchestrator stores it and
  then dereferences it.
\<close>

record CreateOrderResponse =
  CreateOrderResponse_OrderId :: "OrderID option"
  CreateOrderResponse_Status :: OrderStatus

record CancelOrderRequest =
  CancelOrderRequest_OrderId :: "OrderID option"

record CompleteOrderRequest =
  CompleteOrderRequest_OrderId :: "OrderID option"

subsection \<open>payment.proto\<close>

datatype PaymentStatus =
  PaymentStatus_PAYMENT_STATUS_UNSPECIFIED
  | PaymentStatus_SUCCESS
  | PaymentStatus_FAILED
  | PaymentStatus_REFUNDED

record Payment =
  Payment_Id :: string
  Payment_OrderId :: OrderID
  Payment_Amount :: float32
  Payment_Status :: PaymentStatus
  Payment_TransactionId :: string

record ProcessPaymentRequest =
  ProcessPaymentRequest_OrderId :: "OrderID option"
  ProcessPaymentRequest_PaymentInfo :: "PaymentInfo option"

record ProcessPaymentResponse =
  ProcessPaymentResponse_PaymentId :: string
  ProcessPaymentResponse_Status :: PaymentStatus
  ProcessPaymentResponse_Message :: string

record RefundPaymentRequest =
  RefundPaymentRequest_OrderId :: "OrderID option"
  RefundPaymentRequest_PaymentId :: string

subsection \<open>shipping.proto\<close>

datatype ShippingStatus =
  ShippingStatus_SHIPPING_STATUS_UNSPECIFIED
  | ShippingStatus_PENDING
  | ShippingStatus_SHIPPED
  | ShippingStatus_CANCELLED

record Shipment =
  Shipment_Id :: string
  Shipment_OrderId :: OrderID
  Shipment_Address :: ShippingAddress
  Shipment_Status :: ShippingStatus
  Shipment_TrackingNumber :: string

record ArrangeShippingRequest =
  ArrangeShippingRequest_OrderId :: "OrderID option"
  ArrangeShippingRequest_Address :: "ShippingAddress option"

record ArrangeShippingResponse =
  ArrangeShippingResponse_ShipmentId :: string
  ArrangeShippingResponse_Status :: ShippingStatus

record CancelShippingRequest =
  CancelShippingRequest_OrderId :: "OrderID option"
  CancelShippingRequest_ShipmentId :: string

section \<open>Call errors and panics\<close>

text \<open>
  A remote call returns either a response or an error.  The services build their errors
  with \<open>status.Errorf(code, format, ...)\<close>; the codes below are the ones the services
  use, and the two a client reports when the call itself does not go through.
\<close>

datatype Code = NotFound | InvalidArgument | Internal | Unavailable | DeadlineExceeded

datatype rpc_error = Errorf Code string

text \<open>
  A handler that dereferences a nil pointer panics: it does not return.  Every handler
  dereferences the sub-messages of its request in its first lines, before it takes the
  lock and before it draws a number, so a handler that panics has changed nothing.  The
  result of a handler is \<open>None\<close> for the panic, and otherwise what it returns (an error or
  a response) together with the server's new map.
\<close>

type_synonym ('r, 's) handled = "((rpc_error + 'r) \<times> 's) option"

section \<open>Order service (internal/order/service.go)\<close>

text \<open>The server's state is its map \<open>orders\<close>; every handler returns the new map.\<close>

type_synonym order_store = "string \<rightharpoonup> Order"

text \<open>
  \<open>calculateTotal\<close> accumulates in float32: \<open>total += item.Price * float32(item.Quantity)\<close>,
  starting from 0.0 (all bits zero).  What one such step yields is the platform's
  business (the Go specification lets an implementation fuse the multiplication and the
  addition, which changes the rounding): the step is the argument \<open>accumulate\<close>, taking
  the total so far, the price and the quantity to the new total.
\<close>

type_synonym float32_step = "float32 \<Rightarrow> float32 \<Rightarrow> 32 word \<Rightarrow> float32"

definition calculateTotal :: "float32_step \<Rightarrow> Item list \<Rightarrow> float32" where
  "calculateTotal accumulate items =
     foldl (\<lambda>total item. accumulate total (Item_Price item) (Item_Quantity item)) 0 items"

definition CreateOrder ::
  "float32_step \<Rightarrow> order_store \<Rightarrow> CreateOrderRequest \<Rightarrow>
     (CreateOrderResponse, order_store) handled" where
  "CreateOrder accumulate s req =
     (case CreateOrderRequest_Details req of
        None \<Rightarrow> None
      | Some details \<Rightarrow>
          (let orderID = ''order-'' @ OrderDetails_UserId details;
               newOrder = \<lparr> Order_Id = orderID,
                            Order_UserId = OrderDetails_UserId details,
                            Order_Items = OrderDetails_Items details,
                            Order_TotalAmount =
                              calculateTotal accumulate (OrderDetails_Items details),
                            Order_Status = OrderStatus_PENDING \<rparr>
           in Some (Inr \<lparr> CreateOrderResponse_OrderId = Some \<lparr> OrderID_Id = orderID \<rparr>,
                          CreateOrderResponse_Status = Order_Status newOrder \<rparr>,
                    s(orderID \<mapsto> newOrder))))"

definition CancelOrder ::
  "order_store \<Rightarrow> CancelOrderRequest \<Rightarrow> (CompensationResponse, order_store) handled" where
  "CancelOrder s req =
     (case CancelOrderRequest_OrderId req of
        None \<Rightarrow> None
      | Some oid \<Rightarrow>
          (let orderID = OrderID_Id oid
           in Some
             (case s orderID of
                None \<Rightarrow> (Inl (Errorf NotFound (''Order '' @ orderID @ '' not found'')), s)
              | Some order' \<Rightarrow>
                  if Order_Status order' = OrderStatus_CANCELLED
                  then (Inr \<lparr> CompensationResponse_Success = True,
                              CompensationResponse_Message = ''Order already cancelled'' \<rparr>, s)
                  else (Inr \<lparr> CompensationResponse_Success = True,
                              CompensationResponse_Message = ''Order cancelled successfully'' \<rparr>,
                        s(orderID \<mapsto> order'\<lparr> Order_Status := OrderStatus_CANCELLED \<rparr>)))))"

definition CompleteOrder ::
  "order_store \<Rightarrow> CompleteOrderRequest \<Rightarrow> (CompensationResponse, order_store) handled" where
  "CompleteOrder s req =
     (case CompleteOrderRequest_OrderId req of
        None \<Rightarrow> None
      | Some oid \<Rightarrow>
          (let orderID = OrderID_Id oid
           in Some
             (case s orderID of
                None \<Rightarrow> (Inl (Errorf NotFound (''Order '' @ orderID @ '' not found'')), s)
              | Some order' \<Rightarrow>
                  (Inr \<lparr> CompensationResponse_Success = True,
                         CompensationResponse_Message = ''Order completion processed'' \<rparr>,
                   if Order_Status order' = OrderStatus_PENDING
                   then s(orderID \<mapsto> order'\<lparr> Order_Status := OrderStatus_COMPLETED \<rparr>)
                   else s))))"

section \<open>Payment service (internal/payment/service.go)\<close>

text \<open>
  \<open>ProcessPayment\<close> draws \<open>rand.Intn(10)\<close>; the drawn number is the argument \<open>intn\<close>,
  so that every outcome of the draw is an input of the model.
\<close>

type_synonym payment_store = "string \<rightharpoonup> Payment"

definition ProcessPayment ::
  "payment_store \<Rightarrow> int \<Rightarrow> ProcessPaymentRequest \<Rightarrow>
     (ProcessPaymentResponse, payment_store) handled" where
  "ProcessPayment s intn req =
     (case ProcessPaymentRequest_OrderId req of
        None \<Rightarrow> None
      | Some oid \<Rightarrow>
          (case ProcessPaymentRequest_PaymentInfo req of
             None \<Rightarrow> None
           | Some info \<Rightarrow>
               (let orderID = OrderID_Id oid;
                    paymentID = ''pay-'' @ orderID;
                    succeeded = (intn > 2);
                    paymentStatus =
                      (if succeeded then PaymentStatus_SUCCESS else PaymentStatus_FAILED);
                    message = (if succeeded then ''Payment processed successfully.''
                               else ''Payment failed due to insufficient funds.'');
                    newPayment = \<lparr> Payment_Id = paymentID,
                                   Payment_OrderId = oid,
                                   Payment_Amount = PaymentInfo_Amount info,
                                   Payment_Status = paymentStatus,
                                   Payment_TransactionId = [] \<rparr>
                in Some (Inr \<lparr> ProcessPaymentResponse_PaymentId = paymentID,
                               ProcessPaymentResponse_Status = paymentStatus,
                               ProcessPaymentResponse_Message = message \<rparr>,
                         s(paymentID \<mapsto> newPayment)))))"

definition RefundPayment ::
  "payment_store \<Rightarrow> RefundPaymentRequest \<Rightarrow> (CompensationResponse, payment_store) handled" where
  "RefundPayment s req =
     (case RefundPaymentRequest_OrderId req of
        None \<Rightarrow> None
      | Some oid \<Rightarrow>
          (let orderID = OrderID_Id oid;
               paymentID = RefundPaymentRequest_PaymentId req
           in Some
             (case s paymentID of
                None \<Rightarrow> (Inl (Errorf NotFound (''Payment '' @ paymentID @ '' not found'')), s)
              | Some payment \<Rightarrow>
                  if OrderID_Id (Payment_OrderId payment) \<noteq> orderID
                  then (Inl (Errorf InvalidArgument
                          (''Payment '' @ paymentID @ '' does not belong to order '' @ orderID)), s)
                  else if Payment_Status payment = PaymentStatus_REFUNDED
                  then (Inr \<lparr> CompensationResponse_Success = True,
                              CompensationResponse_Message = ''Payment already refunded'' \<rparr>, s)
                  else if Payment_Status payment = PaymentStatus_FAILED
                  then (Inr \<lparr> CompensationResponse_Success = True,
                              CompensationResponse_Message =
                                ''Payment originally failed, no refund needed'' \<rparr>, s)
                  else (Inr \<lparr> CompensationResponse_Success = True,
                              CompensationResponse_Message = ''Payment refunded successfully'' \<rparr>,
                        s(paymentID \<mapsto> payment\<lparr> Payment_Status := PaymentStatus_REFUNDED \<rparr>)))))"

section \<open>Shipping service (internal/shipping/service.go)\<close>

type_synonym shipment_store = "string \<rightharpoonup> Shipment"

definition ArrangeShipping ::
  "shipment_store \<Rightarrow> int \<Rightarrow> ArrangeShippingRequest \<Rightarrow>
     (ArrangeShippingResponse, shipment_store) handled" where
  "ArrangeShipping s intn req =
     (case ArrangeShippingRequest_OrderId req of
        None \<Rightarrow> None
      | Some oid \<Rightarrow>
          (case ArrangeShippingRequest_Address req of
             None \<Rightarrow> None
           | Some address \<Rightarrow>
               (let orderID = OrderID_Id oid;
                    shipmentID = ''ship-'' @ orderID;
                    succeeded = (intn > 1)
                in Some
                  (if \<not> succeeded
                   then (Inl (Errorf Internal
                           (''Failed to arrange shipping for order '' @ orderID
                              @ '': Carrier unavailable'')), s)
                   else (let newShipment = \<lparr> Shipment_Id = shipmentID,
                                              Shipment_OrderId = oid,
                                              Shipment_Address = address,
                                              Shipment_Status = ShippingStatus_PENDING,
                                              Shipment_TrackingNumber = [] \<rparr>;
                             newShipment =
                               newShipment\<lparr> Shipment_Status := ShippingStatus_SHIPPED \<rparr>
                         in (Inr \<lparr> ArrangeShippingResponse_ShipmentId = shipmentID,
                                   ArrangeShippingResponse_Status = Shipment_Status newShipment \<rparr>,
                             s(shipmentID \<mapsto> newShipment)))))))"

definition CancelShipping ::
  "shipment_store \<Rightarrow> CancelShippingRequest \<Rightarrow>
     (CompensationResponse, shipment_store) handled" where
  "CancelShipping s req =
     (case CancelShippingRequest_OrderId req of
        None \<Rightarrow> None
      | Some oid \<Rightarrow>
          (let orderID = OrderID_Id oid;
               shipmentID = CancelShippingRequest_ShipmentId req
           in Some
             (case s shipmentID of
                None \<Rightarrow> (Inl (Errorf NotFound (''Shipment '' @ shipmentID @ '' not found'')), s)
              | Some shipment \<Rightarrow>
                  if OrderID_Id (Shipment_OrderId shipment) \<noteq> orderID
                  then (Inl (Errorf InvalidArgument
                          (''Shipment '' @ shipmentID @ '' does not belong to order ''
                             @ orderID)), s)
                  else if Shipment_Status shipment = ShippingStatus_CANCELLED
                  then (Inr \<lparr> CompensationResponse_Success = True,
                              CompensationResponse_Message = ''Shipment already cancelled'' \<rparr>, s)
                  else (Inr \<lparr> CompensationResponse_Success = True,
                              CompensationResponse_Message = ''Shipping cancelled successfully'' \<rparr>,
                        s(shipmentID \<mapsto>
                            shipment\<lparr> Shipment_Status := ShippingStatus_CANCELLED \<rparr>)))))"

section \<open>Service clients (pkg/grpc_clients)\<close>

text \<open>
  \<open>ServiceClients\<close> holds one client per service; the orchestrator only calls their
  methods.  A method takes the state of the world behind the client (\<open>'w\<close>) and the
  request, and returns the call's result (an error or a response, as the generated
  client returns exactly one of the two) and the new state of the world.
\<close>

record 'w ServiceClients =
  Order_CreateOrder :: "'w \<Rightarrow> CreateOrderRequest \<Rightarrow> (rpc_error + CreateOrderResponse) \<times> 'w"
  Order_CancelOrder :: "'w \<Rightarrow> CancelOrderRequest \<Rightarrow> (rpc_error + CompensationResponse) \<times> 'w"
  Order_CompleteOrder :: "'w \<Rightarrow> CompleteOrderRequest \<Rightarrow> (rpc_error + CompensationResponse) \<times> 'w"
  Payment_ProcessPayment ::
    "'w \<Rightarrow> ProcessPaymentRequest \<Rightarrow> (rpc_error + ProcessPaymentResponse) \<times> 'w"
  Payment_RefundPayment ::
    "'w \<Rightarrow> RefundPaymentRequest \<Rightarrow> (rpc_error + CompensationResponse) \<times> 'w"
  Shipping_ArrangeShipping ::
    "'w \<Rightarrow> ArrangeShippingRequest \<Rightarrow> (rpc_error + ArrangeShippingResponse) \<times> 'w"
  Shipping_CancelShipping ::
    "'w \<Rightarrow> CancelShippingRequest \<Rightarrow> (rpc_error + CompensationResponse) \<times> 'w"

section \<open>Saga orchestrator (internal/orchestrator/orchestrator.go)\<close>

text \<open>
  \<open>SagaState.OrderID\<close> is a pointer, nil until step 1 has succeeded.
\<close>

record SagaState =
  SagaState_OrderID :: "OrderID option"
  SagaState_PaymentID :: string
  SagaState_ShipmentID :: string

text \<open>
  The orchestrator's observable behaviour is the sequence of remote calls it issues, in
  order, each with its request.  Where a compensation function returns without calling
  (its log line says ``Skipping ... call''), the sequence records the skip.
\<close>

datatype event =
  Call_CreateOrder CreateOrderRequest
  | Call_ProcessPayment ProcessPaymentRequest
  | Call_ArrangeShipping ArrangeShippingRequest
  | Call_CompleteOrder CompleteOrderRequest
  | Call_CancelOrder CancelOrderRequest
  | Call_RefundPayment RefundPaymentRequest
  | Call_CancelShipping CancelShippingRequest
  | Skip_CancelOrder
  | Skip_RefundPayment
  | Skip_CancelShipping

text \<open>A run in progress: the world behind the clients, and the calls issued so far.\<close>

type_synonym 'w run = "'w \<times> event list"

text \<open>
  What \<open>ExecuteCreateOrderSaga\<close> returns: nil, or \<open>errors.New(reason)\<close>; a nil
  pointer dereference ends the call with a panic instead.
\<close>

datatype saga_result = SagaOk | SagaError string | SagaPanic

definition compensateCreateOrder ::
  "'w ServiceClients \<Rightarrow> OrderID option \<Rightarrow> 'w run \<Rightarrow> 'w run" where
  "compensateCreateOrder clients orderID run =
     (case orderID of
        None \<Rightarrow> (fst run, snd run @ [Skip_CancelOrder])
      | Some oid \<Rightarrow>
          if OrderID_Id oid = []
          then (fst run, snd run @ [Skip_CancelOrder])
          else (let req = \<lparr> CancelOrderRequest_OrderId = Some oid \<rparr>
                in case Order_CancelOrder clients (fst run) req of
                     (err, w') \<Rightarrow> (w', snd run @ [Call_CancelOrder req])))"

text \<open>
  The two functions below are only called after \<open>state.OrderID\<close> has been dereferenced
  (line 52), so their \<open>orderID\<close> is a non-nil pointer: the argument is the order id it
  points to, and the request carries it.
\<close>

definition compensateProcessPayment ::
  "'w ServiceClients \<Rightarrow> OrderID \<Rightarrow> string \<Rightarrow> 'w run \<Rightarrow> 'w run" where
  "compensateProcessPayment clients orderID paymentID run =
     (if paymentID = []
      then (fst run, snd run @ [Skip_RefundPayment])
      else (let req = \<lparr> RefundPaymentRequest_OrderId = Some orderID,
                        RefundPaymentRequest_PaymentId = paymentID \<rparr>
            in case Payment_RefundPayment clients (fst run) req of
                 (err, w') \<Rightarrow> (w', snd run @ [Call_RefundPayment req])))"

definition compensateArrangeShipping ::
  "'w ServiceClients \<Rightarrow> OrderID \<Rightarrow> string \<Rightarrow> 'w run \<Rightarrow> 'w run" where
  "compensateArrangeShipping clients orderID shipmentID run =
     (if shipmentID = []
      then (fst run, snd run @ [Skip_CancelShipping])
      else (let req = \<lparr> CancelShippingRequest_OrderId = Some orderID,
                        CancelShippingRequest_ShipmentId = shipmentID \<rparr>
            in case Shipping_CancelShipping clients (fst run) req of
                 (err, w') \<Rightarrow> (w', snd run @ [Call_CancelShipping req])))"

text \<open>
  \<open>ExecuteCreateOrderSaga\<close> returns its result together with the finished run.  Its
  three arguments are pointers that it passes on without dereferencing them.  The
  contexts (deadlines) are not arguments: what a deadline does to a call is part of the
  client's answer.
\<close>

definition ExecuteCreateOrderSaga ::
  "'w ServiceClients \<Rightarrow> OrderDetails option \<Rightarrow> PaymentInfo option \<Rightarrow>
     ShippingAddress option \<Rightarrow> 'w \<Rightarrow> saga_result \<times> 'w run" where
  "ExecuteCreateOrderSaga clients details paymentInfo shippingAddr w =
     (let state = \<lparr> SagaState_OrderID = None, SagaState_PaymentID = [],
                    SagaState_ShipmentID = [] \<rparr>;
          createOrderReq = \<lparr> CreateOrderRequest_Details = details \<rparr>
      in case Order_CreateOrder clients w createOrderReq of
        (Inl err, w1) \<Rightarrow>
          (SagaError ''failed to create order'',
           compensateCreateOrder clients (SagaState_OrderID state)
             (w1, [Call_CreateOrder createOrderReq]))
      | (Inr createOrderResp, w1) \<Rightarrow>
          (let state = state\<lparr> SagaState_OrderID := CreateOrderResponse_OrderId createOrderResp \<rparr>;
               run1 = (w1, [Call_CreateOrder createOrderReq])
           in case SagaState_OrderID state of
             None \<Rightarrow> (SagaPanic, run1)
           | Some orderID \<Rightarrow>
               (let processPaymentReq = \<lparr> ProcessPaymentRequest_OrderId = Some orderID,
                                          ProcessPaymentRequest_PaymentInfo = paymentInfo \<rparr>
                in case Payment_ProcessPayment clients w1 processPaymentReq of
                  (processPaymentRes, w2) \<Rightarrow>
                    (let run2 = (w2, snd run1 @ [Call_ProcessPayment processPaymentReq]);
                         paymentFailed =
                           (case processPaymentRes of
                              Inl err \<Rightarrow> True
                            | Inr processPaymentResp \<Rightarrow>
                                ProcessPaymentResponse_Status processPaymentResp
                                  = PaymentStatus_FAILED)
                     in if paymentFailed
                        then (SagaError ''failed to process payment'',
                              compensateCreateOrder clients (SagaState_OrderID state)
                                (compensateProcessPayment clients orderID
                                   (SagaState_PaymentID state) run2))
                        else
                          (case processPaymentRes of
                             Inl err \<Rightarrow> (SagaPanic, run2) \<comment> \<open>not reached: an error sets \<open>paymentFailed\<close>\<close>
                           | Inr processPaymentResp \<Rightarrow>
                               (let state = state\<lparr> SagaState_PaymentID :=
                                              ProcessPaymentResponse_PaymentId processPaymentResp \<rparr>;
                                    arrangeShippingReq =
                                      \<lparr> ArrangeShippingRequest_OrderId = Some orderID,
                                        ArrangeShippingRequest_Address = shippingAddr \<rparr>
                                in case Shipping_ArrangeShipping clients w2 arrangeShippingReq of
                                  (Inl err, w3) \<Rightarrow>
                                    (SagaError ''failed to arrange shipping'',
                                     compensateCreateOrder clients (SagaState_OrderID state)
                                       (compensateProcessPayment clients orderID
                                          (SagaState_PaymentID state)
                                          (compensateArrangeShipping clients orderID
                                             (SagaState_ShipmentID state)
                                             (w3, snd run2 @ [Call_ArrangeShipping arrangeShippingReq]))))
                                | (Inr arrangeShippingResp, w3) \<Rightarrow>
                                    (let state = state\<lparr> SagaState_ShipmentID :=
                                                   ArrangeShippingResponse_ShipmentId arrangeShippingResp \<rparr>;
                                         completeReq = \<lparr> CompleteOrderRequest_OrderId = Some orderID \<rparr>
                                     in case Order_CompleteOrder clients w3 completeReq of
                                       (completeRes, w4) \<Rightarrow>
                                         (SagaOk,
                                          (w4, snd run2 @ [Call_ArrangeShipping arrangeShippingReq,
                                                           Call_CompleteOrder completeReq])))))))))"

section \<open>The deployed system: three services behind their clients\<close>

text \<open>
  The world behind the clients of the deployed system is the three servers' maps.
\<close>

record World =
  orders :: order_store
  payments :: payment_store
  shipments :: shipment_store

text \<open>
  What is outside the repository's code is an input of a run: for each remote call,
  whether it went through (the request reached the handler and the response came back),
  the request never reached the service, or the handler ran and its response was lost
  (a deadline that expires while the call is in flight); the numbers the two forward
  handlers draw; and the platform's float32 accumulation step.  A call that does not go
  through returns an error to the orchestrator, and so does a call whose handler panics:
  the servers are created by \<open>grpc.NewServer()\<close> with no recovery, so the panic ends the
  connection instead of answering.  Every remote call occurs at most once in a run, so one
  field per call describes a run; and a run never calls a service again after a forward
  handler of that service has failed (the matching compensation is skipped).
\<close>

datatype delivery = Delivered | RequestLost | ResponseLost

record Env =
  net_CreateOrder :: delivery
  net_ProcessPayment :: delivery
  net_ArrangeShipping :: delivery
  net_CompleteOrder :: delivery
  net_CancelOrder :: delivery
  net_RefundPayment :: delivery
  net_CancelShipping :: delivery
  intn_ProcessPayment :: int
  intn_ArrangeShipping :: int
  float32_accumulate :: float32_step

definition rpc :: "delivery \<Rightarrow> ('r, 's) handled \<Rightarrow> 's \<Rightarrow> (rpc_error + 'r) \<times> 's" where
  "rpc d handled s =
     (case d of
        RequestLost \<Rightarrow> (Inl (Errorf Unavailable ''connection error''), s)
      | Delivered \<Rightarrow>
          (case handled of
             None \<Rightarrow> (Inl (Errorf Unavailable ''error reading from server: EOF''), s)
           | Some (res, s') \<Rightarrow> (res, s'))
      | ResponseLost \<Rightarrow>
          (case handled of
             None \<Rightarrow> (Inl (Errorf DeadlineExceeded ''context deadline exceeded''), s)
           | Some (res, s') \<Rightarrow>
               (Inl (Errorf DeadlineExceeded ''context deadline exceeded''), s')))"

definition service_clients :: "Env \<Rightarrow> World ServiceClients" where
  "service_clients env =
     \<lparr> Order_CreateOrder = (\<lambda>w req.
         case rpc (net_CreateOrder env)
                (CreateOrder (float32_accumulate env) (orders w) req) (orders w) of
           (res, s) \<Rightarrow> (res, w\<lparr> orders := s \<rparr>)),
       Order_CancelOrder = (\<lambda>w req.
         case rpc (net_CancelOrder env) (CancelOrder (orders w) req) (orders w) of
           (res, s) \<Rightarrow> (res, w\<lparr> orders := s \<rparr>)),
       Order_CompleteOrder = (\<lambda>w req.
         case rpc (net_CompleteOrder env) (CompleteOrder (orders w) req) (orders w) of
           (res, s) \<Rightarrow> (res, w\<lparr> orders := s \<rparr>)),
       Payment_ProcessPayment = (\<lambda>w req.
         case rpc (net_ProcessPayment env)
                (ProcessPayment (payments w) (intn_ProcessPayment env) req) (payments w) of
           (res, s) \<Rightarrow> (res, w\<lparr> payments := s \<rparr>)),
       Payment_RefundPayment = (\<lambda>w req.
         case rpc (net_RefundPayment env) (RefundPayment (payments w) req) (payments w) of
           (res, s) \<Rightarrow> (res, w\<lparr> payments := s \<rparr>)),
       Shipping_ArrangeShipping = (\<lambda>w req.
         case rpc (net_ArrangeShipping env)
                (ArrangeShipping (shipments w) (intn_ArrangeShipping env) req) (shipments w) of
           (res, s) \<Rightarrow> (res, w\<lparr> shipments := s \<rparr>)),
       Shipping_CancelShipping = (\<lambda>w req.
         case rpc (net_CancelShipping env) (CancelShipping (shipments w) req) (shipments w) of
           (res, s) \<Rightarrow> (res, w\<lparr> shipments := s \<rparr>)) \<rparr>"

text \<open>
  A sequence of calls of the four status-changing store operations, for statements about
  every sequence of operations.  A call that panics leaves the map as it is.
\<close>

datatype store_op =
  Op_CancelOrder CancelOrderRequest
  | Op_CompleteOrder CompleteOrderRequest
  | Op_RefundPayment RefundPaymentRequest
  | Op_CancelShipping CancelShippingRequest

definition map_after :: "('r, 's) handled \<Rightarrow> 's \<Rightarrow> 's" where
  "map_after handled s = (case handled of None \<Rightarrow> s | Some (res, s') \<Rightarrow> s')"

fun apply_op :: "World \<Rightarrow> store_op \<Rightarrow> World" where
  "apply_op w (Op_CancelOrder req) =
     w\<lparr> orders := map_after (CancelOrder (orders w) req) (orders w) \<rparr>"
| "apply_op w (Op_CompleteOrder req) =
     w\<lparr> orders := map_after (CompleteOrder (orders w) req) (orders w) \<rparr>"
| "apply_op w (Op_RefundPayment req) =
     w\<lparr> payments := map_after (RefundPayment (payments w) req) (payments w) \<rparr>"
| "apply_op w (Op_CancelShipping req) =
     w\<lparr> shipments := map_after (CancelShipping (shipments w) req) (shipments w) \<rparr>"

definition apply_ops :: "World \<Rightarrow> store_op list \<Rightarrow> World" where
  "apply_ops w ops = foldl apply_op w ops"

section \<open>A concrete run: the request of cmd/orchestrator/main.go\<close>

text \<open>
  The order, payment information and address that the orchestrator's \<open>main\<close> submits,
  the three servers as \<open>NewServer()\<close> creates them (empty maps), and a network on which
  every call goes through, given the two drawn numbers.  The amounts are the binary32
  bits of 10.5, 25 and 46.
\<close>

definition main_orderDetails :: OrderDetails where
  "main_orderDetails =
     \<lparr> OrderDetails_UserId = ''user-123'',
       OrderDetails_Items =
         [\<lparr> Item_ProductId = ''prod-A'', Item_Quantity = 2, Item_Price = 0x41280000 \<rparr>,
          \<lparr> Item_ProductId = ''prod-B'', Item_Quantity = 1, Item_Price = 0x41C80000 \<rparr>] \<rparr>"

definition main_paymentInfo :: PaymentInfo where
  "main_paymentInfo =
     \<lparr> PaymentInfo_CardNumber = ''xxxx-xxxx-xxxx-1234'', PaymentInfo_ExpiryDate = ''12/26'',
       PaymentInfo_Cvv = ''123'', PaymentInfo_Amount = 0x42380000 \<rparr>"

definition main_shippingAddress :: ShippingAddress where
  "main_shippingAddress =
     \<lparr> ShippingAddress_Street = ''123 Saga Lane'', ShippingAddress_City = ''Orchestration City'',
       ShippingAddress_State = ''Workflow'', ShippingAddress_ZipCode = ''98765'',
       ShippingAddress_Country = ''GoLand'' \<rparr>"

text \<open>
  The total of that order takes two accumulation steps, 0 + 10.5 * 2 = 21 and
  21 + 25 * 1 = 46.  Both results are binary32 values, so no rounding takes place and
  every platform computes them alike, fused or not.  The runs below apply no other step;
  \<open>main_accumulate\<close> is the accumulation step on these two arguments (and 0 elsewhere,
  where it is not used).
\<close>

definition main_accumulate :: float32_step where
  "main_accumulate totalSoFar price quantity =
     (if totalSoFar = 0 \<and> price = 0x41280000 \<and> quantity = 2 then 0x41A80000
      else if totalSoFar = 0x41A80000 \<and> price = 0x41C80000 \<and> quantity = 1 then 0x42380000
      else 0)"

definition NewServers :: World where
  "NewServers = \<lparr> orders = Map.empty, payments = Map.empty, shipments = Map.empty \<rparr>"

definition all_delivered :: "int \<Rightarrow> int \<Rightarrow> Env" where
  "all_delivered intnPayment intnShipping =
     \<lparr> net_CreateOrder = Delivered, net_ProcessPayment = Delivered,
       net_ArrangeShipping = Delivered, net_CompleteOrder = Delivered,
       net_CancelOrder = Delivered, net_RefundPayment = Delivered,
       net_CancelShipping = Delivered,
       intn_ProcessPayment = intnPayment, intn_ArrangeShipping = intnShipping,
       float32_accumulate = main_accumulate \<rparr>"

definition main_orderID :: OrderID where
  "main_orderID = \<lparr> OrderID_Id = ''order-user-123'' \<rparr>"

text \<open>
  The servers after a run of that request in which every step succeeds, and the same
  servers after each of the three compensating operations has then been called once.
\<close>

definition after_successful_run :: World where
  "after_successful_run =
     fst (snd (ExecuteCreateOrderSaga (service_clients (all_delivered 5 5))
                 (Some main_orderDetails) (Some main_paymentInfo) (Some main_shippingAddress)
                 NewServers))"

definition after_compensations :: World where
  "after_compensations =
     apply_ops after_successful_run
       [Op_CancelShipping \<lparr> CancelShippingRequest_OrderId = Some main_orderID,
                            CancelShippingRequest_ShipmentId = ''ship-order-user-123'' \<rparr>,
        Op_RefundPayment \<lparr> RefundPaymentRequest_OrderId = Some main_orderID,
                           RefundPaymentRequest_PaymentId = ''pay-order-user-123'' \<rparr>,
        Op_CancelOrder \<lparr> CancelOrderRequest_OrderId = Some main_orderID \<rparr>]"


section \<open>Auxiliary facts\<close>

subsection \<open>What a compensation function adds to the run\<close>

lemma calls_compensateCreateOrder:
  "snd (compensateCreateOrder clients orderID run) =
     snd run @ [case orderID of
                  None \<Rightarrow> Skip_CancelOrder
                | Some oid \<Rightarrow> if OrderID_Id oid = [] then Skip_CancelOrder
                              else Call_CancelOrder \<lparr> CancelOrderRequest_OrderId = Some oid \<rparr>]"
  by (simp add: compensateCreateOrder_def Let_def split_beta split: option.splits)

lemma calls_compensateProcessPayment:
  "snd (compensateProcessPayment clients orderID paymentID run) =
     snd run @ [if paymentID = [] then Skip_RefundPayment
                else Call_RefundPayment \<lparr> RefundPaymentRequest_OrderId = Some orderID,
                                          RefundPaymentRequest_PaymentId = paymentID \<rparr>]"
  by (simp add: compensateProcessPayment_def Let_def split_beta)

lemma calls_compensateArrangeShipping:
  "snd (compensateArrangeShipping clients orderID shipmentID run) =
     snd run @ [if shipmentID = [] then Skip_CancelShipping
                else Call_CancelShipping \<lparr> CancelShippingRequest_OrderId = Some orderID,
                                           CancelShippingRequest_ShipmentId = shipmentID \<rparr>]"
  by (simp add: compensateArrangeShipping_def Let_def split_beta)

lemma world_compensateCreateOrder:
  "fst (compensateCreateOrder clients orderID run) =
     (case orderID of
        None \<Rightarrow> fst run
      | Some oid \<Rightarrow> if OrderID_Id oid = [] then fst run
                    else snd (Order_CancelOrder clients (fst run)
                                \<lparr> CancelOrderRequest_OrderId = Some oid \<rparr>))"
  by (simp add: compensateCreateOrder_def Let_def split_beta split: option.splits)

lemma world_compensateProcessPayment:
  "fst (compensateProcessPayment clients orderID paymentID run) =
     (if paymentID = [] then fst run
      else snd (Payment_RefundPayment clients (fst run)
                  \<lparr> RefundPaymentRequest_OrderId = Some orderID,
                    RefundPaymentRequest_PaymentId = paymentID \<rparr>))"
  by (simp add: compensateProcessPayment_def Let_def split_beta)

lemma world_compensateArrangeShipping:
  "fst (compensateArrangeShipping clients orderID shipmentID run) =
     (if shipmentID = [] then fst run
      else snd (Shipping_CancelShipping clients (fst run)
                  \<lparr> CancelShippingRequest_OrderId = Some orderID,
                    CancelShippingRequest_ShipmentId = shipmentID \<rparr>))"
  by (simp add: compensateArrangeShipping_def Let_def split_beta)

subsection \<open>The saga on arbitrary clients, by the step that fails\<close>

lemma saga_CreateOrder_failed:
  assumes "Order_CreateOrder clients w \<lparr> CreateOrderRequest_Details = details \<rparr> = (Inl err, w1)"
  shows "ExecuteCreateOrderSaga clients details paymentInfo shippingAddr w
      = (SagaError ''failed to create order'', w1,
         [Call_CreateOrder \<lparr> CreateOrderRequest_Details = details \<rparr>, Skip_CancelOrder])"
  using assms
  by (simp add: ExecuteCreateOrderSaga_def Let_def compensateCreateOrder_def)

lemma saga_ProcessPayment_failed:
  assumes "Order_CreateOrder clients w
             \<lparr> CreateOrderRequest_Details = details \<rparr> = (Inr createOrderResp, w1)"
    and "CreateOrderResponse_OrderId createOrderResp = Some orderID"
    and "Payment_ProcessPayment clients w1
             \<lparr> ProcessPaymentRequest_OrderId = Some orderID,
               ProcessPaymentRequest_PaymentInfo = paymentInfo \<rparr> = (processPaymentRes, w2)"
    and "case processPaymentRes of
           Inl err \<Rightarrow> True
         | Inr processPaymentResp \<Rightarrow>
             ProcessPaymentResponse_Status processPaymentResp = PaymentStatus_FAILED"
  shows "ExecuteCreateOrderSaga clients details paymentInfo shippingAddr w
      = (SagaError ''failed to process payment'',
         compensateCreateOrder clients (Some orderID)
           (w2, [Call_CreateOrder \<lparr> CreateOrderRequest_Details = details \<rparr>,
                 Call_ProcessPayment \<lparr> ProcessPaymentRequest_OrderId = Some orderID,
                                       ProcessPaymentRequest_PaymentInfo = paymentInfo \<rparr>,
                 Skip_RefundPayment]))"
  using assms
  by (simp add: ExecuteCreateOrderSaga_def Let_def compensateProcessPayment_def)

lemma saga_ArrangeShipping_failed:
  assumes "Order_CreateOrder clients w
             \<lparr> CreateOrderRequest_Details = details \<rparr> = (Inr createOrderResp, w1)"
    and "CreateOrderResponse_OrderId createOrderResp = Some orderID"
    and "Payment_ProcessPayment clients w1
             \<lparr> ProcessPaymentRequest_OrderId = Some orderID,
               ProcessPaymentRequest_PaymentInfo = paymentInfo \<rparr> = (Inr processPaymentResp, w2)"
    and "ProcessPaymentResponse_Status processPaymentResp \<noteq> PaymentStatus_FAILED"
    and "Shipping_ArrangeShipping clients w2
             \<lparr> ArrangeShippingRequest_OrderId = Some orderID,
               ArrangeShippingRequest_Address = shippingAddr \<rparr> = (Inl err, w3)"
  shows "ExecuteCreateOrderSaga clients details paymentInfo shippingAddr w
      = (SagaError ''failed to arrange shipping'',
         compensateCreateOrder clients (Some orderID)
           (compensateProcessPayment clients orderID
              (ProcessPaymentResponse_PaymentId processPaymentResp)
              (w3, [Call_CreateOrder \<lparr> CreateOrderRequest_Details = details \<rparr>,
                    Call_ProcessPayment \<lparr> ProcessPaymentRequest_OrderId = Some orderID,
                                          ProcessPaymentRequest_PaymentInfo = paymentInfo \<rparr>,
                    Call_ArrangeShipping \<lparr> ArrangeShippingRequest_OrderId = Some orderID,
                                           ArrangeShippingRequest_Address = shippingAddr \<rparr>,
                    Skip_CancelShipping])))"
  using assms
  by (simp add: ExecuteCreateOrderSaga_def Let_def compensateArrangeShipping_def)

subsection \<open>The deployed clients\<close>

lemma service_clients_sel:
  "Order_CreateOrder (service_clients env) w creq =
     (case rpc (net_CreateOrder env)
             (CreateOrder (float32_accumulate env) (orders w) creq) (orders w) of
        (res, s) \<Rightarrow> (res, w\<lparr> orders := s \<rparr>))"
  "Order_CancelOrder (service_clients env) w xreq =
     (case rpc (net_CancelOrder env) (CancelOrder (orders w) xreq) (orders w) of
        (res, s) \<Rightarrow> (res, w\<lparr> orders := s \<rparr>))"
  "Order_CompleteOrder (service_clients env) w dreq =
     (case rpc (net_CompleteOrder env) (CompleteOrder (orders w) dreq) (orders w) of
        (res, s) \<Rightarrow> (res, w\<lparr> orders := s \<rparr>))"
  "Payment_ProcessPayment (service_clients env) w preq =
     (case rpc (net_ProcessPayment env)
             (ProcessPayment (payments w) (intn_ProcessPayment env) preq) (payments w) of
        (res, s) \<Rightarrow> (res, w\<lparr> payments := s \<rparr>))"
  "Payment_RefundPayment (service_clients env) w rreq =
     (case rpc (net_RefundPayment env) (RefundPayment (payments w) rreq) (payments w) of
        (res, s) \<Rightarrow> (res, w\<lparr> payments := s \<rparr>))"
  "Shipping_ArrangeShipping (service_clients env) w areq =
     (case rpc (net_ArrangeShipping env)
             (ArrangeShipping (shipments w) (intn_ArrangeShipping env) areq) (shipments w) of
        (res, s) \<Rightarrow> (res, w\<lparr> shipments := s \<rparr>))"
  "Shipping_CancelShipping (service_clients env) w sreq =
     (case rpc (net_CancelShipping env) (CancelShipping (shipments w) sreq) (shipments w) of
        (res, s) \<Rightarrow> (res, w\<lparr> shipments := s \<rparr>))"
  by (simp_all add: service_clients_def)

lemmas run_simps = service_clients_sel rpc_def CreateOrder_def CancelOrder_def CompleteOrder_def
  ProcessPayment_def RefundPayment_def ArrangeShipping_def CancelShipping_def Let_def
  main_orderDetails_def main_paymentInfo_def main_shippingAddress_def NewServers_def
  all_delivered_def

text \<open>Each client changes the map of its own service only.\<close>

lemma service_frame:
  "payments (snd (Order_CreateOrder (service_clients env) w creq)) = payments w"
  "shipments (snd (Order_CreateOrder (service_clients env) w creq)) = shipments w"
  "payments (snd (Order_CancelOrder (service_clients env) w xreq)) = payments w"
  "shipments (snd (Order_CancelOrder (service_clients env) w xreq)) = shipments w"
  "payments (snd (Order_CompleteOrder (service_clients env) w dreq)) = payments w"
  "shipments (snd (Order_CompleteOrder (service_clients env) w dreq)) = shipments w"
  "orders (snd (Payment_ProcessPayment (service_clients env) w preq)) = orders w"
  "shipments (snd (Payment_ProcessPayment (service_clients env) w preq)) = shipments w"
  "orders (snd (Payment_RefundPayment (service_clients env) w rreq)) = orders w"
  "shipments (snd (Payment_RefundPayment (service_clients env) w rreq)) = shipments w"
  "orders (snd (Shipping_ArrangeShipping (service_clients env) w areq)) = orders w"
  "payments (snd (Shipping_ArrangeShipping (service_clients env) w areq)) = payments w"
  "orders (snd (Shipping_CancelShipping (service_clients env) w sreq)) = orders w"
  "payments (snd (Shipping_CancelShipping (service_clients env) w sreq)) = payments w"
  by (simp_all add: service_clients_sel split_beta)

text \<open>What a successful forward call of the deployed system has returned and stored.\<close>

lemma service_CreateOrder_Inr:
  assumes "Order_CreateOrder (service_clients env) w req = (Inr resp, w1)"
  shows "\<exists>details.
           CreateOrderRequest_Details req = Some details
           \<and> CreateOrderResponse_OrderId resp
               = Some \<lparr> OrderID_Id = ''order-'' @ OrderDetails_UserId details \<rparr>
           \<and> map_option Order_Status (orders w1 (''order-'' @ OrderDetails_UserId details))
               = Some OrderStatus_PENDING"
  using assms
  by (cases "net_CreateOrder env")
     (auto simp add: service_clients_sel rpc_def CreateOrder_def Let_def split: option.splits)

lemma OrderID_Id_nonempty:
  assumes "Order_CreateOrder (service_clients env) w req = (Inr resp, w1)"
    and "CreateOrderResponse_OrderId resp = Some orderID"
  shows "OrderID_Id orderID \<noteq> []"
    and "map_option Order_Status (orders w1 (OrderID_Id orderID)) = Some OrderStatus_PENDING"
  using service_CreateOrder_Inr [OF assms(1)] assms(2) by auto

lemma service_ProcessPayment_Inr:
  assumes "Payment_ProcessPayment (service_clients env) w
             \<lparr> ProcessPaymentRequest_OrderId = Some orderID,
               ProcessPaymentRequest_PaymentInfo = paymentInfo \<rparr> = (Inr resp, w1)"
  shows "ProcessPaymentResponse_PaymentId resp \<noteq> []"
    and "\<exists>pay. payments w1 (ProcessPaymentResponse_PaymentId resp) = Some pay
           \<and> Payment_OrderId pay = orderID
           \<and> Payment_Status pay = ProcessPaymentResponse_Status resp"
    and "ProcessPaymentResponse_Status resp = PaymentStatus_SUCCESS
           \<or> ProcessPaymentResponse_Status resp = PaymentStatus_FAILED"
  using assms
  by (cases "net_ProcessPayment env";
      auto simp add: service_clients_sel rpc_def ProcessPayment_def Let_def
        split: option.splits if_splits)+

text \<open>What the compensating calls of the deployed system do when they reach the service.\<close>

lemma service_CancelOrder_cancels:
  assumes "map_option Order_Status (orders w (OrderID_Id oid)) = Some st"
    and "net_CancelOrder env \<noteq> RequestLost"
  shows "map_option Order_Status
           (orders (snd (Order_CancelOrder (service_clients env) w
                           \<lparr> CancelOrderRequest_OrderId = Some oid \<rparr>))
              (OrderID_Id oid)) = Some OrderStatus_CANCELLED"
  using assms
  by (cases "net_CancelOrder env")
     (auto simp add: service_clients_sel rpc_def CancelOrder_def Let_def)

lemma service_RefundPayment_refunds:
  assumes "payments w pid = Some pay"
    and "Payment_OrderId pay = oid"
    and "Payment_Status pay = PaymentStatus_SUCCESS"
    and "net_RefundPayment env \<noteq> RequestLost"
  shows "map_option Payment_Status
           (payments (snd (Payment_RefundPayment (service_clients env) w
                             \<lparr> RefundPaymentRequest_OrderId = Some oid,
                               RefundPaymentRequest_PaymentId = pid \<rparr>)) pid)
           = Some PaymentStatus_REFUNDED"
  using assms
  by (cases "net_RefundPayment env")
     (auto simp add: service_clients_sel rpc_def RefundPayment_def Let_def)

lemma failed_payment_run:
  assumes "Order_CreateOrder (service_clients env) w
             \<lparr> CreateOrderRequest_Details = details \<rparr> = (Inr createOrderResp, w1)"
    and "CreateOrderResponse_OrderId createOrderResp = Some orderID"
    and "Payment_ProcessPayment (service_clients env) w1
             \<lparr> ProcessPaymentRequest_OrderId = Some orderID,
               ProcessPaymentRequest_PaymentInfo = paymentInfo \<rparr> = (processPaymentRes, w2)"
    and "case processPaymentRes of
           Inl err \<Rightarrow> True
         | Inr processPaymentResp \<Rightarrow>
             ProcessPaymentResponse_Status processPaymentResp = PaymentStatus_FAILED"
  shows "ExecuteCreateOrderSaga (service_clients env) details paymentInfo shippingAddr w
      = (SagaError ''failed to process payment'',
         snd (Order_CancelOrder (service_clients env) w2
                \<lparr> CancelOrderRequest_OrderId = Some orderID \<rparr>),
         [Call_CreateOrder \<lparr> CreateOrderRequest_Details = details \<rparr>,
          Call_ProcessPayment \<lparr> ProcessPaymentRequest_OrderId = Some orderID,
                                ProcessPaymentRequest_PaymentInfo = paymentInfo \<rparr>,
          Skip_RefundPayment,
          Call_CancelOrder \<lparr> CancelOrderRequest_OrderId = Some orderID \<rparr>])"
proof -
  from assms(1,2) have oid: "OrderID_Id orderID \<noteq> []"
    by (rule OrderID_Id_nonempty(1))
  show ?thesis
    using oid
    by (simp add: saga_ProcessPayment_failed [OF assms] compensateCreateOrder_def Let_def
          split_beta)
qed

lemma failed_shipping_run:
  assumes "Order_CreateOrder (service_clients env) w
             \<lparr> CreateOrderRequest_Details = details \<rparr> = (Inr createOrderResp, w1)"
    and "CreateOrderResponse_OrderId createOrderResp = Some orderID"
    and "Payment_ProcessPayment (service_clients env) w1
             \<lparr> ProcessPaymentRequest_OrderId = Some orderID,
               ProcessPaymentRequest_PaymentInfo = paymentInfo \<rparr> = (Inr processPaymentResp, w2)"
    and "ProcessPaymentResponse_Status processPaymentResp \<noteq> PaymentStatus_FAILED"
    and "Shipping_ArrangeShipping (service_clients env) w2
             \<lparr> ArrangeShippingRequest_OrderId = Some orderID,
               ArrangeShippingRequest_Address = shippingAddr \<rparr> = (Inl err, w3)"
  shows "ExecuteCreateOrderSaga (service_clients env) details paymentInfo shippingAddr w
      = (SagaError ''failed to arrange shipping'',
         snd (Order_CancelOrder (service_clients env)
                (snd (Payment_RefundPayment (service_clients env) w3
                        \<lparr> RefundPaymentRequest_OrderId = Some orderID,
                          RefundPaymentRequest_PaymentId =
                            ProcessPaymentResponse_PaymentId processPaymentResp \<rparr>))
                \<lparr> CancelOrderRequest_OrderId = Some orderID \<rparr>),
         [Call_CreateOrder \<lparr> CreateOrderRequest_Details = details \<rparr>,
          Call_ProcessPayment \<lparr> ProcessPaymentRequest_OrderId = Some orderID,
                                ProcessPaymentRequest_PaymentInfo = paymentInfo \<rparr>,
          Call_ArrangeShipping \<lparr> ArrangeShippingRequest_OrderId = Some orderID,
                                 ArrangeShippingRequest_Address = shippingAddr \<rparr>,
          Skip_CancelShipping,
          Call_RefundPayment
            \<lparr> RefundPaymentRequest_OrderId = Some orderID,
              RefundPaymentRequest_PaymentId =
                ProcessPaymentResponse_PaymentId processPaymentResp \<rparr>,
          Call_CancelOrder \<lparr> CancelOrderRequest_OrderId = Some orderID \<rparr>])"
proof -
  from assms(1,2) have oid: "OrderID_Id orderID \<noteq> []"
    by (rule OrderID_Id_nonempty(1))
  from assms(3) have pid: "ProcessPaymentResponse_PaymentId processPaymentResp \<noteq> []"
    by (rule service_ProcessPayment_Inr(1))
  show ?thesis
    using oid pid
    by (simp add: saga_ArrangeShipping_failed [OF assms] compensateCreateOrder_def
          compensateProcessPayment_def Let_def split_beta)
qed

subsection \<open>The concrete run, evaluated\<close>

lemma main_total:
  "calculateTotal main_accumulate (OrderDetails_Items main_orderDetails) = 0x42380000"
  by (simp add: calculateTotal_def main_accumulate_def main_orderDetails_def)

lemma after_successful_run_eval:
  "after_successful_run =
     \<lparr> orders = [''order-user-123'' \<mapsto>
          \<lparr> Order_Id = ''order-user-123'', Order_UserId = ''user-123'',
            Order_Items = OrderDetails_Items main_orderDetails,
            Order_TotalAmount = 0x42380000,
            Order_Status = OrderStatus_COMPLETED \<rparr>],
       payments = [''pay-order-user-123'' \<mapsto>
          \<lparr> Payment_Id = ''pay-order-user-123'', Payment_OrderId = main_orderID,
            Payment_Amount = 0x42380000, Payment_Status = PaymentStatus_SUCCESS,
            Payment_TransactionId = [] \<rparr>],
       shipments = [''ship-order-user-123'' \<mapsto>
          \<lparr> Shipment_Id = ''ship-order-user-123'', Shipment_OrderId = main_orderID,
            Shipment_Address = main_shippingAddress, Shipment_Status = ShippingStatus_SHIPPED,
            Shipment_TrackingNumber = [] \<rparr>] \<rparr>"
  unfolding after_successful_run_def ExecuteCreateOrderSaga_def main_orderID_def
  by (simp add: service_clients_sel rpc_def CreateOrder_def CompleteOrder_def
        ProcessPayment_def ArrangeShipping_def Let_def all_delivered_def NewServers_def
        main_paymentInfo_def main_total)
     (simp add: main_orderDetails_def)

lemma after_compensations_eval:
  "after_compensations =
     \<lparr> orders = [''order-user-123'' \<mapsto>
          \<lparr> Order_Id = ''order-user-123'', Order_UserId = ''user-123'',
            Order_Items = OrderDetails_Items main_orderDetails,
            Order_TotalAmount = 0x42380000,
            Order_Status = OrderStatus_CANCELLED \<rparr>],
       payments = [''pay-order-user-123'' \<mapsto>
          \<lparr> Payment_Id = ''pay-order-user-123'', Payment_OrderId = main_orderID,
            Payment_Amount = 0x42380000, Payment_Status = PaymentStatus_REFUNDED,
            Payment_TransactionId = [] \<rparr>],
       shipments = [''ship-order-user-123'' \<mapsto>
          \<lparr> Shipment_Id = ''ship-order-user-123'', Shipment_OrderId = main_orderID,
            Shipment_Address = main_shippingAddress, Shipment_Status = ShippingStatus_CANCELLED,
            Shipment_TrackingNumber = [] \<rparr>] \<rparr>"
  unfolding after_compensations_def after_successful_run_eval apply_ops_def
  by (simp add: CancelOrder_def RefundPayment_def CancelShipping_def Let_def main_orderID_def
        map_after_def)

subsection \<open>Orders are stored under their own id\<close>

text \<open>
  Every record of the order server is stored under its own id: the map is created empty,
  \<open>CreateOrder\<close> stores a record under the id it gives it, and the other two handlers
  change the status only.
\<close>

lemma orders_keyed_CreateOrder:
  "\<forall>k ord. s k = Some ord \<longrightarrow> Order_Id ord = k \<Longrightarrow>
   \<forall>k ord. map_after (CreateOrder accumulate s req) s k = Some ord \<longrightarrow> Order_Id ord = k"
  by (auto simp add: CreateOrder_def map_after_def Let_def split: option.splits)

lemma orders_keyed_CancelOrder:
  "\<forall>k ord. s k = Some ord \<longrightarrow> Order_Id ord = k \<Longrightarrow>
   \<forall>k ord. map_after (CancelOrder s req) s k = Some ord \<longrightarrow> Order_Id ord = k"
  by (auto simp add: CancelOrder_def map_after_def Let_def split: option.splits if_splits)

lemma orders_keyed_CompleteOrder:
  "\<forall>k ord. s k = Some ord \<longrightarrow> Order_Id ord = k \<Longrightarrow>
   \<forall>k ord. map_after (CompleteOrder s req) s k = Some ord \<longrightarrow> Order_Id ord = k"
  by (auto simp add: CompleteOrder_def map_after_def Let_def split: option.splits if_splits)

subsection \<open>One operation, and a sequence of operations\<close>

lemma apply_op_order_cancelled:
  "map_option Order_Status (orders w k) = Some OrderStatus_CANCELLED \<Longrightarrow>
   map_option Order_Status (orders (apply_op w x) k) = Some OrderStatus_CANCELLED"
  by (cases x) (auto simp add: CancelOrder_def CompleteOrder_def map_after_def Let_def
       split: option.splits)

lemma apply_op_payment_refunded:
  "map_option Payment_Status (payments w k) = Some PaymentStatus_REFUNDED \<Longrightarrow>
   map_option Payment_Status (payments (apply_op w x) k) = Some PaymentStatus_REFUNDED"
  by (cases x) (auto simp add: RefundPayment_def map_after_def Let_def split: option.splits)

lemma apply_op_shipment_cancelled:
  "map_option Shipment_Status (shipments w k) = Some ShippingStatus_CANCELLED \<Longrightarrow>
   map_option Shipment_Status (shipments (apply_op w x) k) = Some ShippingStatus_CANCELLED"
  by (cases x) (auto simp add: CancelShipping_def map_after_def Let_def split: option.splits)

lemma apply_op_order_completed:
  "map_option Order_Status (orders w k) = Some OrderStatus_COMPLETED \<Longrightarrow>
   x \<noteq> Op_CancelOrder \<lparr> CancelOrderRequest_OrderId = Some (\<lparr> OrderID_Id = k \<rparr>) \<rparr> \<Longrightarrow>
   map_option Order_Status (orders (apply_op w x) k) = Some OrderStatus_COMPLETED"
proof (cases x)
  case (Op_CancelOrder req)
  assume c: "map_option Order_Status (orders w k) = Some OrderStatus_COMPLETED"
    and n: "x \<noteq> Op_CancelOrder \<lparr> CancelOrderRequest_OrderId = Some (\<lparr> OrderID_Id = k \<rparr>) \<rparr>"
  from n Op_CancelOrder
  have "\<forall>oid. CancelOrderRequest_OrderId req = Some oid \<longrightarrow> OrderID_Id oid \<noteq> k"
    by (cases req) auto
  with c Op_CancelOrder show ?thesis
    by (auto simp add: CancelOrder_def map_after_def Let_def split: option.splits)
qed (auto simp add: CompleteOrder_def map_after_def Let_def split: option.splits)

lemma apply_ops_Cons: "apply_ops w (x # xs) = apply_ops (apply_op w x) xs"
  by (simp add: apply_ops_def)

lemma apply_ops_Nil: "apply_ops w [] = w"
  by (simp add: apply_ops_def)

lemma apply_ops_order_cancelled:
  "map_option Order_Status (orders w k) = Some OrderStatus_CANCELLED \<Longrightarrow>
   map_option Order_Status (orders (apply_ops w xs) k) = Some OrderStatus_CANCELLED"
proof (induction xs arbitrary: w)
  case Nil
  then show ?case by (simp only: apply_ops_Nil)
next
  case (Cons x xs)
  from Cons.prems
  have "map_option Order_Status (orders (apply_op w x) k) = Some OrderStatus_CANCELLED"
    by (rule apply_op_order_cancelled)
  then have "map_option Order_Status (orders (apply_ops (apply_op w x) xs) k)
               = Some OrderStatus_CANCELLED"
    by (rule Cons.IH)
  then show ?case by (simp only: apply_ops_Cons)
qed

lemma apply_ops_payment_refunded:
  "map_option Payment_Status (payments w k) = Some PaymentStatus_REFUNDED \<Longrightarrow>
   map_option Payment_Status (payments (apply_ops w xs) k) = Some PaymentStatus_REFUNDED"
proof (induction xs arbitrary: w)
  case Nil
  then show ?case by (simp only: apply_ops_Nil)
next
  case (Cons x xs)
  from Cons.prems
  have "map_option Payment_Status (payments (apply_op w x) k) = Some PaymentStatus_REFUNDED"
    by (rule apply_op_payment_refunded)
  then have "map_option Payment_Status (payments (apply_ops (apply_op w x) xs) k)
               = Some PaymentStatus_REFUNDED"
    by (rule Cons.IH)
  then show ?case by (simp only: apply_ops_Cons)
qed

lemma apply_ops_shipment_cancelled:
  "map_option Shipment_Status (shipments w k) = Some ShippingStatus_CANCELLED \<Longrightarrow>
   map_option Shipment_Status (shipments (apply_ops w xs) k) = Some ShippingStatus_CANCELLED"
proof (induction xs arbitrary: w)
  case Nil
  then show ?case by (simp only: apply_ops_Nil)
next
  case (Cons x xs)
  from Cons.prems
  have "map_option Shipment_Status (shipments (apply_op w x) k) = Some ShippingStatus_CANCELLED"
    by (rule apply_op_shipment_cancelled)
  then have "map_option Shipment_Status (shipments (apply_ops (apply_op w x) xs) k)
               = Some ShippingStatus_CANCELLED"
    by (rule Cons.IH)
  then show ?case by (simp only: apply_ops_Cons)
qed

lemma apply_ops_order_completed:
  "map_option Order_Status (orders w k) = Some OrderStatus_COMPLETED \<Longrightarrow>
   Op_CancelOrder \<lparr> CancelOrderRequest_OrderId = Some (\<lparr> OrderID_Id = k \<rparr>) \<rparr> \<notin> set xs \<Longrightarrow>
   map_option Order_Status (orders (apply_ops w xs) k) = Some OrderStatus_COMPLETED"
proof (induction xs arbitrary: w)
  case Nil
  then show ?case by (simp add: apply_ops_Nil)
next
  case (Cons x xs)
  from Cons.prems have "x \<noteq> Op_CancelOrder \<lparr> CancelOrderRequest_OrderId = Some (\<lparr> OrderID_Id = k \<rparr>) \<rparr>"
    by auto
  with Cons.prems
  have "map_option Order_Status (orders (apply_op w x) k) = Some OrderStatus_COMPLETED"
    by (simp add: apply_op_order_completed)
  moreover from Cons.prems
  have "Op_CancelOrder \<lparr> CancelOrderRequest_OrderId = Some (\<lparr> OrderID_Id = k \<rparr>) \<rparr> \<notin> set xs"
    by simp
  ultimately show ?case
    by (simp add: apply_ops_Cons Cons.IH)
qed

section \<open>Properties of the saga\<close>

text \<open>
  \<^bold>\<open>C1.\<close>  In every run of the deployed system in which CreateOrder and ProcessPayment
  succeed (ProcessPayment returns a response whose status is not FAILED) and
  ArrangeShipping then returns an error, \<open>ExecuteCreateOrderSaga\<close> returns the error
  ``failed to arrange shipping'', and after the three forward calls the orchestrator
  compensates in the reverse order: the shipping compensation first, which skips the
  CancelShipping call because no shipment id has been recorded, then the RefundPayment
  call for the payment id that ProcessPayment returned, then the CancelOrder call.
  Nothing else is called.  The world the run leaves behind is the one these two remote
  calls produce, RefundPayment first and CancelOrder second, from the world that
  ArrangeShipping left: the shipping server's map is as ArrangeShipping left it, the
  payment is REFUNDED unless the RefundPayment request was lost on its way, and the order
  is CANCELLED unless the CancelOrder request was lost on its way.
\<close>

theorem shipping_failure_compensates_in_reverse_order:
  assumes "Order_CreateOrder (service_clients env) w
             \<lparr> CreateOrderRequest_Details = details \<rparr> = (Inr createOrderResp, w1)"
    and "CreateOrderResponse_OrderId createOrderResp = Some orderID"
    and "Payment_ProcessPayment (service_clients env) w1
             \<lparr> ProcessPaymentRequest_OrderId = Some orderID,
               ProcessPaymentRequest_PaymentInfo = paymentInfo \<rparr> = (Inr processPaymentResp, w2)"
    and "ProcessPaymentResponse_Status processPaymentResp \<noteq> PaymentStatus_FAILED"
    and "Shipping_ArrangeShipping (service_clients env) w2
             \<lparr> ArrangeShippingRequest_OrderId = Some orderID,
               ArrangeShippingRequest_Address = shippingAddr \<rparr> = (Inl err, w3)"
  shows "ExecuteCreateOrderSaga (service_clients env) details paymentInfo shippingAddr w
           = (SagaError ''failed to arrange shipping'',
              snd (Order_CancelOrder (service_clients env)
                     (snd (Payment_RefundPayment (service_clients env) w3
                             \<lparr> RefundPaymentRequest_OrderId = Some orderID,
                               RefundPaymentRequest_PaymentId =
                                 ProcessPaymentResponse_PaymentId processPaymentResp \<rparr>))
                     \<lparr> CancelOrderRequest_OrderId = Some orderID \<rparr>),
              [Call_CreateOrder \<lparr> CreateOrderRequest_Details = details \<rparr>,
               Call_ProcessPayment \<lparr> ProcessPaymentRequest_OrderId = Some orderID,
                                     ProcessPaymentRequest_PaymentInfo = paymentInfo \<rparr>,
               Call_ArrangeShipping \<lparr> ArrangeShippingRequest_OrderId = Some orderID,
                                      ArrangeShippingRequest_Address = shippingAddr \<rparr>,
               Skip_CancelShipping,
               Call_RefundPayment
                 \<lparr> RefundPaymentRequest_OrderId = Some orderID,
                   RefundPaymentRequest_PaymentId =
                     ProcessPaymentResponse_PaymentId processPaymentResp \<rparr>,
               Call_CancelOrder \<lparr> CancelOrderRequest_OrderId = Some orderID \<rparr>])
       \<and> shipments (fst (snd (ExecuteCreateOrderSaga (service_clients env)
                                 details paymentInfo shippingAddr w))) = shipments w3
       \<and> (net_RefundPayment env \<noteq> RequestLost \<longrightarrow>
            map_option Payment_Status
              (payments (fst (snd (ExecuteCreateOrderSaga (service_clients env)
                                     details paymentInfo shippingAddr w)))
                 (ProcessPaymentResponse_PaymentId processPaymentResp))
              = Some PaymentStatus_REFUNDED)
       \<and> (net_CancelOrder env \<noteq> RequestLost \<longrightarrow>
            map_option Order_Status
              (orders (fst (snd (ExecuteCreateOrderSaga (service_clients env)
                                   details paymentInfo shippingAddr w))) (OrderID_Id orderID))
              = Some OrderStatus_CANCELLED)"
proof -
  let ?c = "service_clients env"
  let ?rreq = "\<lparr> RefundPaymentRequest_OrderId = Some orderID,
                 RefundPaymentRequest_PaymentId =
                   ProcessPaymentResponse_PaymentId processPaymentResp \<rparr>"
  let ?creq = "\<lparr> CancelOrderRequest_OrderId = Some orderID \<rparr>"
  let ?w4 = "snd (Payment_RefundPayment ?c w3 ?rreq)"
  note run = failed_shipping_run [OF assms]
  have w2: "w2 = snd (Payment_ProcessPayment ?c w1
                        \<lparr> ProcessPaymentRequest_OrderId = Some orderID,
                          ProcessPaymentRequest_PaymentInfo = paymentInfo \<rparr>)"
    using assms(3) by simp
  have w3: "w3 = snd (Shipping_ArrangeShipping ?c w2
                        \<lparr> ArrangeShippingRequest_OrderId = Some orderID,
                          ArrangeShippingRequest_Address = shippingAddr \<rparr>)"
    using assms(5) by simp
  have ships: "shipments (snd (Order_CancelOrder ?c ?w4 ?creq)) = shipments w3"
    by (simp add: service_frame)
  from service_ProcessPayment_Inr(2,3) [OF assms(3)] assms(4)
  obtain pay where pay: "payments w2 (ProcessPaymentResponse_PaymentId processPaymentResp) = Some pay"
      "Payment_OrderId pay = orderID" "Payment_Status pay = PaymentStatus_SUCCESS"
    by auto
  have "payments w3 = payments w2"
    by (subst w3) (simp add: service_frame)
  with pay have pay3: "payments w3 (ProcessPaymentResponse_PaymentId processPaymentResp) = Some pay"
    by simp
  have refunded: "net_RefundPayment env \<noteq> RequestLost \<Longrightarrow>
      map_option Payment_Status
        (payments (snd (Order_CancelOrder ?c ?w4 ?creq))
           (ProcessPaymentResponse_PaymentId processPaymentResp)) = Some PaymentStatus_REFUNDED"
    using service_RefundPayment_refunds [OF pay3 pay(2,3)] by (simp add: service_frame)
  have "orders w2 = orders w1"
    by (subst w2) (simp add: service_frame)
  moreover have "orders w3 = orders w2"
    by (subst w3) (simp add: service_frame)
  ultimately have "map_option Order_Status (orders ?w4 (OrderID_Id orderID))
                     = Some OrderStatus_PENDING"
    using OrderID_Id_nonempty(2) [OF assms(1,2)] by (simp add: service_frame)
  then have cancelled: "net_CancelOrder env \<noteq> RequestLost \<Longrightarrow>
      map_option Order_Status
        (orders (snd (Order_CancelOrder ?c ?w4 ?creq)) (OrderID_Id orderID))
        = Some OrderStatus_CANCELLED"
    by (rule service_CancelOrder_cancels)
  show ?thesis
    using ships refunded cancelled by (simp add: run)
qed

text \<open>
  An instance: the request of \<open>main\<close> on fresh servers, with a shipping draw that fails.
  The run ends with the order CANCELLED, the payment REFUNDED and no shipment.
\<close>

theorem shipping_failure_compensates_in_reverse_order_witness:
  "ExecuteCreateOrderSaga (service_clients (all_delivered 5 0))
          (Some main_orderDetails) (Some main_paymentInfo) (Some main_shippingAddress) NewServers
     = (SagaError ''failed to arrange shipping'',
        \<lparr> orders = [''order-user-123'' \<mapsto>
             \<lparr> Order_Id = ''order-user-123'', Order_UserId = ''user-123'',
               Order_Items = OrderDetails_Items main_orderDetails,
               Order_TotalAmount = 0x42380000,
               Order_Status = OrderStatus_CANCELLED \<rparr>],
          payments = [''pay-order-user-123'' \<mapsto>
             \<lparr> Payment_Id = ''pay-order-user-123'', Payment_OrderId = main_orderID,
               Payment_Amount = 0x42380000, Payment_Status = PaymentStatus_REFUNDED,
               Payment_TransactionId = [] \<rparr>],
          shipments = Map.empty \<rparr>,
        [Call_CreateOrder \<lparr> CreateOrderRequest_Details = Some main_orderDetails \<rparr>,
         Call_ProcessPayment \<lparr> ProcessPaymentRequest_OrderId = Some main_orderID,
                               ProcessPaymentRequest_PaymentInfo = Some main_paymentInfo \<rparr>,
         Call_ArrangeShipping \<lparr> ArrangeShippingRequest_OrderId = Some main_orderID,
                                ArrangeShippingRequest_Address = Some main_shippingAddress \<rparr>,
         Skip_CancelShipping,
         Call_RefundPayment \<lparr> RefundPaymentRequest_OrderId = Some main_orderID,
                              RefundPaymentRequest_PaymentId = ''pay-order-user-123'' \<rparr>,
         Call_CancelOrder \<lparr> CancelOrderRequest_OrderId = Some main_orderID \<rparr>])"
proof -
  let ?c = "service_clients (all_delivered 5 0)"
  let ?oid = "\<lparr> OrderID_Id = ''order-user-123'' \<rparr>"
  let ?r1 = "Order_CreateOrder ?c NewServers
               \<lparr> CreateOrderRequest_Details = Some main_orderDetails \<rparr>"
  let ?r2 = "Payment_ProcessPayment ?c (snd ?r1)
               \<lparr> ProcessPaymentRequest_OrderId = Some ?oid,
                 ProcessPaymentRequest_PaymentInfo = Some main_paymentInfo \<rparr>"
  let ?r3 = "Shipping_ArrangeShipping ?c (snd ?r2)
               \<lparr> ArrangeShippingRequest_OrderId = Some ?oid,
                 ArrangeShippingRequest_Address = Some main_shippingAddress \<rparr>"
  let ?resp1 = "\<lparr> CreateOrderResponse_OrderId = Some ?oid,
                  CreateOrderResponse_Status = OrderStatus_PENDING \<rparr>"
  let ?resp2 = "\<lparr> ProcessPaymentResponse_PaymentId = ''pay-order-user-123'',
                  ProcessPaymentResponse_Status = PaymentStatus_SUCCESS,
                  ProcessPaymentResponse_Message = ''Payment processed successfully.'' \<rparr>"
  let ?err = "Errorf Internal
                ''Failed to arrange shipping for order order-user-123: Carrier unavailable''"
  have h1: "?r1 = (Inr ?resp1, snd ?r1)"
    by (simp add: run_simps)
  have h2: "CreateOrderResponse_OrderId ?resp1 = Some ?oid"
    by simp
  have h3: "?r2 = (Inr ?resp2, snd ?r2)"
    by (simp add: run_simps)
  have h4: "ProcessPaymentResponse_Status ?resp2 \<noteq> PaymentStatus_FAILED"
    by simp
  have h5: "?r3 = (Inl ?err, snd ?r3)"
    by (simp add: run_simps)
  have w: "snd (Order_CancelOrder ?c
                  (snd (Payment_RefundPayment ?c (snd ?r3)
                          \<lparr> RefundPaymentRequest_OrderId = Some ?oid,
                            RefundPaymentRequest_PaymentId = ''pay-order-user-123'' \<rparr>))
                  \<lparr> CancelOrderRequest_OrderId = Some ?oid \<rparr>)
      = \<lparr> orders = [''order-user-123'' \<mapsto>
             \<lparr> Order_Id = ''order-user-123'', Order_UserId = ''user-123'',
               Order_Items = OrderDetails_Items main_orderDetails,
               Order_TotalAmount = 0x42380000,
               Order_Status = OrderStatus_CANCELLED \<rparr>],
          payments = [''pay-order-user-123'' \<mapsto>
             \<lparr> Payment_Id = ''pay-order-user-123'', Payment_OrderId = main_orderID,
               Payment_Amount = 0x42380000, Payment_Status = PaymentStatus_REFUNDED,
               Payment_TransactionId = [] \<rparr>],
          shipments = Map.empty \<rparr>"
    by (simp add: service_clients_sel rpc_def CreateOrder_def CancelOrder_def
          ProcessPayment_def RefundPayment_def ArrangeShipping_def Let_def
          main_paymentInfo_def NewServers_def all_delivered_def main_orderID_def main_total)
       (simp add: main_orderDetails_def)
  from shipping_failure_compensates_in_reverse_order [OF h1 h2 h3 h4 h5]
  show ?thesis
    by (simp add: w main_orderID_def)
qed

text \<open>
  \<^bold>\<open>C2\<close> (amended).  In every run of the deployed system in which ProcessPayment fails
  (the call returns an error, or it returns a response whose status is FAILED),
  \<open>ExecuteCreateOrderSaga\<close> returns the error ``failed to process payment'' and still runs
  the payment compensation for the failed step itself, before the order compensation.
  The payment id is recorded only after a successful ProcessPayment, so at that point
  the recorded id is empty and the payment compensation skips the RefundPayment call:
  the orchestrator itself decides that there is nothing to refund, and the calls issued
  are CreateOrder, ProcessPayment and CancelOrder.  The refund handler, whenever it is
  called for a payment whose status is FAILED and whose order id matches, answers with
  success and the message ``Payment originally failed, no refund needed'' and leaves its
  map unchanged.
\<close>

theorem failed_payment_runs_compensation_without_refund_call:
  assumes "Order_CreateOrder (service_clients env) w
             \<lparr> CreateOrderRequest_Details = details \<rparr> = (Inr createOrderResp, w1)"
    and "CreateOrderResponse_OrderId createOrderResp = Some orderID"
    and "Payment_ProcessPayment (service_clients env) w1
             \<lparr> ProcessPaymentRequest_OrderId = Some orderID,
               ProcessPaymentRequest_PaymentInfo = paymentInfo \<rparr> = (processPaymentRes, w2)"
    and "case processPaymentRes of
           Inl err \<Rightarrow> True
         | Inr processPaymentResp \<Rightarrow>
             ProcessPaymentResponse_Status processPaymentResp = PaymentStatus_FAILED"
  shows "fst (ExecuteCreateOrderSaga (service_clients env) details paymentInfo shippingAddr w)
           = SagaError ''failed to process payment''
       \<and> snd (snd (ExecuteCreateOrderSaga (service_clients env) details paymentInfo shippingAddr w))
           = [Call_CreateOrder \<lparr> CreateOrderRequest_Details = details \<rparr>,
              Call_ProcessPayment \<lparr> ProcessPaymentRequest_OrderId = Some orderID,
                                    ProcessPaymentRequest_PaymentInfo = paymentInfo \<rparr>,
              Skip_RefundPayment,
              Call_CancelOrder \<lparr> CancelOrderRequest_OrderId = Some orderID \<rparr>]
       \<and> (\<forall>p rreq oid pay.
             RefundPaymentRequest_OrderId rreq = Some oid
             \<and> p (RefundPaymentRequest_PaymentId rreq) = Some pay
             \<and> OrderID_Id (Payment_OrderId pay) = OrderID_Id oid
             \<and> Payment_Status pay = PaymentStatus_FAILED
           \<longrightarrow> RefundPayment p rreq =
                 Some (Inr \<lparr> CompensationResponse_Success = True,
                             CompensationResponse_Message =
                               ''Payment originally failed, no refund needed'' \<rparr>, p))"
  using failed_payment_run [OF assms, of shippingAddr]
  by (simp add: RefundPayment_def Let_def)

text \<open>
  An instance: ProcessPayment runs, stores its FAILED record, and the response is lost,
  so the orchestrator sees an error.
\<close>

theorem failed_payment_runs_compensation_without_refund_call_witness:
  "fst (Payment_ProcessPayment
          (service_clients ((all_delivered 0 5)\<lparr> net_ProcessPayment := ResponseLost \<rparr>))
          (snd (Order_CreateOrder
                  (service_clients ((all_delivered 0 5)\<lparr> net_ProcessPayment := ResponseLost \<rparr>))
                  NewServers \<lparr> CreateOrderRequest_Details = Some main_orderDetails \<rparr>))
          \<lparr> ProcessPaymentRequest_OrderId = Some main_orderID,
            ProcessPaymentRequest_PaymentInfo = Some main_paymentInfo \<rparr>)
     = Inl (Errorf DeadlineExceeded ''context deadline exceeded'')
   \<and> fst (ExecuteCreateOrderSaga
            (service_clients ((all_delivered 0 5)\<lparr> net_ProcessPayment := ResponseLost \<rparr>))
            (Some main_orderDetails) (Some main_paymentInfo)
            (Some main_shippingAddress) NewServers)
     = SagaError ''failed to process payment''
   \<and> snd (snd (ExecuteCreateOrderSaga
            (service_clients ((all_delivered 0 5)\<lparr> net_ProcessPayment := ResponseLost \<rparr>))
            (Some main_orderDetails) (Some main_paymentInfo)
            (Some main_shippingAddress) NewServers))
     = [Call_CreateOrder \<lparr> CreateOrderRequest_Details = Some main_orderDetails \<rparr>,
        Call_ProcessPayment \<lparr> ProcessPaymentRequest_OrderId = Some main_orderID,
                              ProcessPaymentRequest_PaymentInfo = Some main_paymentInfo \<rparr>,
        Skip_RefundPayment,
        Call_CancelOrder \<lparr> CancelOrderRequest_OrderId = Some main_orderID \<rparr>]
   \<and> RefundPayment
        [''pay-order-user-123'' \<mapsto>
           \<lparr> Payment_Id = ''pay-order-user-123'', Payment_OrderId = main_orderID,
             Payment_Amount = 0x42380000, Payment_Status = PaymentStatus_FAILED,
             Payment_TransactionId = [] \<rparr>]
        \<lparr> RefundPaymentRequest_OrderId = Some main_orderID,
          RefundPaymentRequest_PaymentId = ''pay-order-user-123'' \<rparr>
     = Some (Inr \<lparr> CompensationResponse_Success = True,
                   CompensationResponse_Message = ''Payment originally failed, no refund needed'' \<rparr>,
        [''pay-order-user-123'' \<mapsto>
           \<lparr> Payment_Id = ''pay-order-user-123'', Payment_OrderId = main_orderID,
             Payment_Amount = 0x42380000, Payment_Status = PaymentStatus_FAILED,
             Payment_TransactionId = [] \<rparr>])"
proof -
  let ?c = "service_clients ((all_delivered 0 5)\<lparr> net_ProcessPayment := ResponseLost \<rparr>)"
  let ?w = "NewServers"
  let ?oid = "\<lparr> OrderID_Id = ''order-user-123'' \<rparr>"
  let ?r1 = "Order_CreateOrder ?c ?w \<lparr> CreateOrderRequest_Details = Some main_orderDetails \<rparr>"
  let ?r2 = "Payment_ProcessPayment ?c (snd ?r1)
               \<lparr> ProcessPaymentRequest_OrderId = Some ?oid,
                 ProcessPaymentRequest_PaymentInfo = Some main_paymentInfo \<rparr>"
  let ?resp1 = "\<lparr> CreateOrderResponse_OrderId = Some ?oid,
                  CreateOrderResponse_Status = OrderStatus_PENDING \<rparr>"
  let ?p = "[''pay-order-user-123'' \<mapsto>
           \<lparr> Payment_Id = ''pay-order-user-123'', Payment_OrderId = main_orderID,
             Payment_Amount = 0x42380000, Payment_Status = PaymentStatus_FAILED,
             Payment_TransactionId = [] \<rparr>]"
  let ?rreq = "\<lparr> RefundPaymentRequest_OrderId = Some main_orderID,
                 RefundPaymentRequest_PaymentId = ''pay-order-user-123'' \<rparr>"
  have h1: "?r1 = (Inr ?resp1, snd ?r1)"
    by (simp add: run_simps)
  have h2: "CreateOrderResponse_OrderId ?resp1 = Some ?oid"
    by simp
  have h3: "?r2 = (Inl (Errorf DeadlineExceeded ''context deadline exceeded''), snd ?r2)"
    by (simp add: run_simps)
  have h4: "case Inl (Errorf DeadlineExceeded ''context deadline exceeded'') of
              Inl err \<Rightarrow> True
            | Inr processPaymentResp \<Rightarrow>
                ProcessPaymentResponse_Status processPaymentResp = PaymentStatus_FAILED"
    by simp
  have h5: "RefundPaymentRequest_OrderId ?rreq = Some main_orderID
            \<and> ?p (RefundPaymentRequest_PaymentId ?rreq)
              = Some \<lparr> Payment_Id = ''pay-order-user-123'', Payment_OrderId = main_orderID,
                       Payment_Amount = 0x42380000, Payment_Status = PaymentStatus_FAILED,
                       Payment_TransactionId = [] \<rparr>"
    by simp
  have f3: "fst ?r2 = Inl (Errorf DeadlineExceeded ''context deadline exceeded'')"
    by (simp add: run_simps)
  from failed_payment_runs_compensation_without_refund_call
         [OF h1 h2 h3 h4, of "Some main_shippingAddress"]
  show ?thesis
    using f3 h5 by (simp add: main_orderID_def)
qed

text \<open>
  \<^bold>\<open>C2\<close> as first stated has the refund handler recognise that a failed payment needs no
  refund.  In the run below ProcessPayment answers FAILED together with the payment id
  \<open>pay-order-user-123\<close>; the orchestrator issues no RefundPayment call, so the handler is
  never asked.
\<close>

theorem failed_payment_never_reaches_refund_handler:
  "fst (Payment_ProcessPayment (service_clients (all_delivered 0 5))
          (snd (Order_CreateOrder (service_clients (all_delivered 0 5))
                  NewServers \<lparr> CreateOrderRequest_Details = Some main_orderDetails \<rparr>))
          \<lparr> ProcessPaymentRequest_OrderId = Some main_orderID,
            ProcessPaymentRequest_PaymentInfo = Some main_paymentInfo \<rparr>)
     = Inr \<lparr> ProcessPaymentResponse_PaymentId = ''pay-order-user-123'',
             ProcessPaymentResponse_Status = PaymentStatus_FAILED,
             ProcessPaymentResponse_Message = ''Payment failed due to insufficient funds.'' \<rparr>
   \<and> snd (snd (ExecuteCreateOrderSaga (service_clients (all_delivered 0 5))
                  (Some main_orderDetails) (Some main_paymentInfo)
            (Some main_shippingAddress) NewServers))
     = [Call_CreateOrder \<lparr> CreateOrderRequest_Details = Some main_orderDetails \<rparr>,
        Call_ProcessPayment \<lparr> ProcessPaymentRequest_OrderId = Some main_orderID,
                              ProcessPaymentRequest_PaymentInfo = Some main_paymentInfo \<rparr>,
        Skip_RefundPayment,
        Call_CancelOrder \<lparr> CancelOrderRequest_OrderId = Some main_orderID \<rparr>]
   \<and> Call_RefundPayment \<lparr> RefundPaymentRequest_OrderId = Some main_orderID,
                           RefundPaymentRequest_PaymentId = ''pay-order-user-123'' \<rparr>
       \<notin> set (snd (snd (ExecuteCreateOrderSaga (service_clients (all_delivered 0 5))
                  (Some main_orderDetails) (Some main_paymentInfo)
            (Some main_shippingAddress) NewServers)))"
proof -
  let ?c = "service_clients (all_delivered 0 5)"
  let ?w = "NewServers"
  let ?oid = "\<lparr> OrderID_Id = ''order-user-123'' \<rparr>"
  let ?r1 = "Order_CreateOrder ?c ?w \<lparr> CreateOrderRequest_Details = Some main_orderDetails \<rparr>"
  let ?r2 = "Payment_ProcessPayment ?c (snd ?r1)
               \<lparr> ProcessPaymentRequest_OrderId = Some ?oid,
                 ProcessPaymentRequest_PaymentInfo = Some main_paymentInfo \<rparr>"
  let ?resp1 = "\<lparr> CreateOrderResponse_OrderId = Some ?oid,
                  CreateOrderResponse_Status = OrderStatus_PENDING \<rparr>"
  let ?resp2 = "\<lparr> ProcessPaymentResponse_PaymentId = ''pay-order-user-123'',
                  ProcessPaymentResponse_Status = PaymentStatus_FAILED,
                  ProcessPaymentResponse_Message = ''Payment failed due to insufficient funds.'' \<rparr>"
  have h1: "?r1 = (Inr ?resp1, snd ?r1)"
    by (simp add: run_simps)
  have h2: "CreateOrderResponse_OrderId ?resp1 = Some ?oid"
    by simp
  have h3: "?r2 = (Inr ?resp2, snd ?r2)"
    by (simp add: run_simps)
  have h4: "case Inr ?resp2 of
              Inl err \<Rightarrow> True
            | Inr processPaymentResp \<Rightarrow>
                ProcessPaymentResponse_Status processPaymentResp = PaymentStatus_FAILED"
    by simp
  have f3: "fst ?r2 = Inr ?resp2"
    by (simp add: run_simps)
  from failed_payment_run [OF h1 h2 h3 h4, of "Some main_shippingAddress"]
  show ?thesis
    using f3 by (simp add: main_orderID_def)
qed

text \<open>
  \<^bold>\<open>C3\<close> (amended).  In every run of the deployed system in which CreateOrder succeeds and
  ProcessPayment returns, without a call error, a response whose status is FAILED,
  \<open>ExecuteCreateOrderSaga\<close> returns the error ``failed to process payment''; the run
  leaves the shipping server's map as it found it (it creates no shipment record, so
  none exists afterwards when none existed before); and, provided the CancelOrder
  request of the compensation reaches the order service, the order record's status ends
  as CANCELLED.
\<close>

theorem business_payment_failure_outcome:
  assumes "Order_CreateOrder (service_clients env) w
             \<lparr> CreateOrderRequest_Details = details \<rparr> = (Inr createOrderResp, w1)"
    and "CreateOrderResponse_OrderId createOrderResp = Some orderID"
    and "Payment_ProcessPayment (service_clients env) w1
             \<lparr> ProcessPaymentRequest_OrderId = Some orderID,
               ProcessPaymentRequest_PaymentInfo = paymentInfo \<rparr> = (Inr processPaymentResp, w2)"
    and "ProcessPaymentResponse_Status processPaymentResp = PaymentStatus_FAILED"
  shows "fst (ExecuteCreateOrderSaga (service_clients env) details paymentInfo shippingAddr w)
           = SagaError ''failed to process payment''
       \<and> shipments (fst (snd (ExecuteCreateOrderSaga (service_clients env)
                                 details paymentInfo shippingAddr w))) = shipments w
       \<and> (net_CancelOrder env \<noteq> RequestLost \<longrightarrow>
            map_option Order_Status
              (orders (fst (snd (ExecuteCreateOrderSaga (service_clients env)
                                   details paymentInfo shippingAddr w))) (OrderID_Id orderID))
              = Some OrderStatus_CANCELLED)"
proof -
  have failed: "case Inr processPaymentResp of
           Inl err \<Rightarrow> True
         | Inr processPaymentResp \<Rightarrow>
             ProcessPaymentResponse_Status processPaymentResp = PaymentStatus_FAILED"
    using assms(4) by simp
  note run = failed_payment_run [OF assms(1,2,3) failed, of shippingAddr]
  have w1: "w1 = snd (Order_CreateOrder (service_clients env) w
                        \<lparr> CreateOrderRequest_Details = details \<rparr>)"
    using assms(1) by simp
  have w2: "w2 = snd (Payment_ProcessPayment (service_clients env) w1
                        \<lparr> ProcessPaymentRequest_OrderId = Some orderID,
                          ProcessPaymentRequest_PaymentInfo = paymentInfo \<rparr>)"
    using assms(3) by simp
  have "orders w2 = orders w1"
    by (subst w2) (simp add: service_frame)
  then have pending: "map_option Order_Status (orders w2 (OrderID_Id orderID))
                        = Some OrderStatus_PENDING"
    using OrderID_Id_nonempty(2) [OF assms(1,2)] by simp
  have "shipments w2 = shipments w1"
    by (subst w2) (simp add: service_frame)
  moreover have "shipments w1 = shipments w"
    by (subst w1) (simp add: service_frame)
  ultimately have ships: "shipments w2 = shipments w"
    by simp
  from pending have cancelled: "net_CancelOrder env \<noteq> RequestLost \<Longrightarrow>
      map_option Order_Status
        (orders (snd (Order_CancelOrder (service_clients env) w2
                        \<lparr> CancelOrderRequest_OrderId = Some orderID \<rparr>)) (OrderID_Id orderID))
        = Some OrderStatus_CANCELLED"
    by (rule service_CancelOrder_cancels)
  show ?thesis
    using cancelled ships by (simp add: run service_frame)
qed

text \<open>
  An instance: the request of \<open>main\<close> on fresh servers, with a payment draw that fails.
\<close>

theorem business_payment_failure_outcome_witness:
  "fst (ExecuteCreateOrderSaga (service_clients (all_delivered 0 5))
          (Some main_orderDetails) (Some main_paymentInfo)
            (Some main_shippingAddress) NewServers)
     = SagaError ''failed to process payment''
   \<and> shipments (fst (snd (ExecuteCreateOrderSaga (service_clients (all_delivered 0 5))
          (Some main_orderDetails) (Some main_paymentInfo)
            (Some main_shippingAddress) NewServers))) = Map.empty
   \<and> map_option Order_Status
        (orders (fst (snd (ExecuteCreateOrderSaga (service_clients (all_delivered 0 5))
           (Some main_orderDetails) (Some main_paymentInfo)
            (Some main_shippingAddress) NewServers)))
           ''order-user-123'')
     = Some OrderStatus_CANCELLED"
proof -
  let ?c = "service_clients (all_delivered 0 5)"
  let ?w = "NewServers"
  let ?oid = "\<lparr> OrderID_Id = ''order-user-123'' \<rparr>"
  let ?r1 = "Order_CreateOrder ?c ?w \<lparr> CreateOrderRequest_Details = Some main_orderDetails \<rparr>"
  let ?r2 = "Payment_ProcessPayment ?c (snd ?r1)
               \<lparr> ProcessPaymentRequest_OrderId = Some ?oid,
                 ProcessPaymentRequest_PaymentInfo = Some main_paymentInfo \<rparr>"
  let ?resp1 = "\<lparr> CreateOrderResponse_OrderId = Some ?oid,
                  CreateOrderResponse_Status = OrderStatus_PENDING \<rparr>"
  let ?resp2 = "\<lparr> ProcessPaymentResponse_PaymentId = ''pay-order-user-123'',
                  ProcessPaymentResponse_Status = PaymentStatus_FAILED,
                  ProcessPaymentResponse_Message = ''Payment failed due to insufficient funds.'' \<rparr>"
  have h1: "?r1 = (Inr ?resp1, snd ?r1)"
    by (simp add: run_simps)
  have h2: "CreateOrderResponse_OrderId ?resp1 = Some ?oid"
    by simp
  have h3: "?r2 = (Inr ?resp2, snd ?r2)"
    by (simp add: run_simps)
  have h4: "ProcessPaymentResponse_Status ?resp2 = PaymentStatus_FAILED"
    by simp
  have h5: "net_CancelOrder (all_delivered 0 5) \<noteq> RequestLost"
    by (simp add: all_delivered_def)
  from business_payment_failure_outcome [OF h1 h2 h3 h4, of "Some main_shippingAddress"]
  show ?thesis
    using h5 by (simp add: NewServers_def)
qed

text \<open>
  \<^bold>\<open>C3\<close> as first stated fails in the following run.  An earlier run for the same user
  has succeeded, so the shipping server holds \<open>ship-order-user-123\<close>.  In the second run
  CreateOrder succeeds, ProcessPayment answers FAILED, and the CancelOrder request of the
  compensation does not reach the order service (the orchestrator logs the failure and
  goes on).  The saga returns ``failed to process payment''; the order is left PENDING,
  and a shipment record for the order exists.
\<close>

theorem payment_failure_with_lost_cancel_after_earlier_success:
  "fst (Payment_ProcessPayment
          (service_clients ((all_delivered 0 5)\<lparr> net_CancelOrder := RequestLost \<rparr>))
          (snd (Order_CreateOrder
                  (service_clients ((all_delivered 0 5)\<lparr> net_CancelOrder := RequestLost \<rparr>))
                  after_successful_run \<lparr> CreateOrderRequest_Details = Some main_orderDetails \<rparr>))
          \<lparr> ProcessPaymentRequest_OrderId = Some main_orderID,
            ProcessPaymentRequest_PaymentInfo = Some main_paymentInfo \<rparr>)
     = Inr \<lparr> ProcessPaymentResponse_PaymentId = ''pay-order-user-123'',
             ProcessPaymentResponse_Status = PaymentStatus_FAILED,
             ProcessPaymentResponse_Message = ''Payment failed due to insufficient funds.'' \<rparr>
   \<and> fst (ExecuteCreateOrderSaga
            (service_clients ((all_delivered 0 5)\<lparr> net_CancelOrder := RequestLost \<rparr>))
            (Some main_orderDetails) (Some main_paymentInfo)
            (Some main_shippingAddress) after_successful_run)
     = SagaError ''failed to process payment''
   \<and> map_option Order_Status
        (orders (fst (snd (ExecuteCreateOrderSaga
            (service_clients ((all_delivered 0 5)\<lparr> net_CancelOrder := RequestLost \<rparr>))
            (Some main_orderDetails) (Some main_paymentInfo)
            (Some main_shippingAddress) after_successful_run)))
           ''order-user-123'')
     = Some OrderStatus_PENDING
   \<and> map_option Shipment_Status
        (shipments (fst (snd (ExecuteCreateOrderSaga
            (service_clients ((all_delivered 0 5)\<lparr> net_CancelOrder := RequestLost \<rparr>))
            (Some main_orderDetails) (Some main_paymentInfo)
            (Some main_shippingAddress) after_successful_run)))
           ''ship-order-user-123'')
     = Some ShippingStatus_SHIPPED"
proof -
  let ?c = "service_clients ((all_delivered 0 5)\<lparr> net_CancelOrder := RequestLost \<rparr>)"
  let ?w = "after_successful_run"
  let ?oid = "\<lparr> OrderID_Id = ''order-user-123'' \<rparr>"
  let ?r1 = "Order_CreateOrder ?c ?w \<lparr> CreateOrderRequest_Details = Some main_orderDetails \<rparr>"
  let ?r2 = "Payment_ProcessPayment ?c (snd ?r1)
               \<lparr> ProcessPaymentRequest_OrderId = Some ?oid,
                 ProcessPaymentRequest_PaymentInfo = Some main_paymentInfo \<rparr>"
  let ?resp1 = "\<lparr> CreateOrderResponse_OrderId = Some ?oid,
                  CreateOrderResponse_Status = OrderStatus_PENDING \<rparr>"
  let ?resp2 = "\<lparr> ProcessPaymentResponse_PaymentId = ''pay-order-user-123'',
                  ProcessPaymentResponse_Status = PaymentStatus_FAILED,
                  ProcessPaymentResponse_Message = ''Payment failed due to insufficient funds.'' \<rparr>"
  have h1: "?r1 = (Inr ?resp1, snd ?r1)"
    by (simp add: run_simps)
  have h2: "CreateOrderResponse_OrderId ?resp1 = Some ?oid"
    by simp
  have h3: "?r2 = (Inr ?resp2, snd ?r2)"
    by (simp add: run_simps)
  have h4: "case Inr ?resp2 of
              Inl err \<Rightarrow> True
            | Inr processPaymentResp \<Rightarrow>
                ProcessPaymentResponse_Status processPaymentResp = PaymentStatus_FAILED"
    by simp
  have w2: "snd (Order_CancelOrder ?c (snd ?r2) \<lparr> CancelOrderRequest_OrderId = Some ?oid \<rparr>) = snd ?r2"
    by (simp add: service_clients_sel rpc_def all_delivered_def)
  have o: "map_option Order_Status (orders (snd ?r2) ''order-user-123'') = Some OrderStatus_PENDING"
    by (simp add: run_simps)
  have sh: "map_option Shipment_Status (shipments (snd ?r2) ''ship-order-user-123'')
              = Some ShippingStatus_SHIPPED"
    by (simp add: service_clients_sel rpc_def CreateOrder_def ProcessPayment_def Let_def
          all_delivered_def after_successful_run_eval)
  have f3: "fst ?r2 = Inr ?resp2"
    by (simp add: run_simps)
  from failed_payment_run [OF h1 h2 h3 h4, of "Some main_shippingAddress"]
  show ?thesis
    using f3 w2 o sh by (simp add: main_orderID_def)
qed

text \<open>
  \<^bold>\<open>C4.\<close>  In every run of the deployed system in which CreateOrder, ProcessPayment and
  ArrangeShipping succeed, \<open>ExecuteCreateOrderSaga\<close> returns success whatever the final
  CompleteOrder call returns (\<open>completeRes\<close> may be an error): the result is nil, and the
  calls issued are the three forward calls and CompleteOrder.
\<close>

theorem finalize_failure_keeps_success:
  assumes "Order_CreateOrder (service_clients env) w
             \<lparr> CreateOrderRequest_Details = details \<rparr> = (Inr createOrderResp, w1)"
    and "CreateOrderResponse_OrderId createOrderResp = Some orderID"
    and "Payment_ProcessPayment (service_clients env) w1
             \<lparr> ProcessPaymentRequest_OrderId = Some orderID,
               ProcessPaymentRequest_PaymentInfo = paymentInfo \<rparr> = (Inr processPaymentResp, w2)"
    and "ProcessPaymentResponse_Status processPaymentResp \<noteq> PaymentStatus_FAILED"
    and "Shipping_ArrangeShipping (service_clients env) w2
             \<lparr> ArrangeShippingRequest_OrderId = Some orderID,
               ArrangeShippingRequest_Address = shippingAddr \<rparr> = (Inr arrangeShippingResp, w3)"
    and "Order_CompleteOrder (service_clients env) w3
             \<lparr> CompleteOrderRequest_OrderId = Some orderID \<rparr> = (completeRes, w4)"
  shows "ExecuteCreateOrderSaga (service_clients env) details paymentInfo shippingAddr w
           = (SagaOk, w4,
              [Call_CreateOrder \<lparr> CreateOrderRequest_Details = details \<rparr>,
               Call_ProcessPayment \<lparr> ProcessPaymentRequest_OrderId = Some orderID,
                                     ProcessPaymentRequest_PaymentInfo = paymentInfo \<rparr>,
               Call_ArrangeShipping \<lparr> ArrangeShippingRequest_OrderId = Some orderID,
                                      ArrangeShippingRequest_Address = shippingAddr \<rparr>,
               Call_CompleteOrder \<lparr> CompleteOrderRequest_OrderId = Some orderID \<rparr>])"
  using assms
  by (simp add: ExecuteCreateOrderSaga_def Let_def)

text \<open>
  An instance in which the CompleteOrder call fails: the saga returns success although
  the order is left PENDING.
\<close>

theorem finalize_failure_keeps_success_witness:
  "fst (Order_CompleteOrder (service_clients ((all_delivered 5 5)\<lparr> net_CompleteOrder := RequestLost \<rparr>))
          (fst (snd (ExecuteCreateOrderSaga
                       (service_clients ((all_delivered 5 5)\<lparr> net_CompleteOrder := RequestLost \<rparr>))
                       (Some main_orderDetails) (Some main_paymentInfo)
            (Some main_shippingAddress) NewServers)))
          \<lparr> CompleteOrderRequest_OrderId = Some (\<lparr> OrderID_Id = ''order-user-123'' \<rparr>) \<rparr>)
     = Inl (Errorf Unavailable ''connection error'')
   \<and> fst (ExecuteCreateOrderSaga
            (service_clients ((all_delivered 5 5)\<lparr> net_CompleteOrder := RequestLost \<rparr>))
            (Some main_orderDetails) (Some main_paymentInfo)
            (Some main_shippingAddress) NewServers) = SagaOk
   \<and> map_option Order_Status
        (orders (fst (snd (ExecuteCreateOrderSaga
            (service_clients ((all_delivered 5 5)\<lparr> net_CompleteOrder := RequestLost \<rparr>))
            (Some main_orderDetails) (Some main_paymentInfo)
            (Some main_shippingAddress) NewServers))) ''order-user-123'')
     = Some OrderStatus_PENDING"
proof -
  let ?c = "service_clients ((all_delivered 5 5)\<lparr> net_CompleteOrder := RequestLost \<rparr>)"
  let ?oid = "\<lparr> OrderID_Id = ''order-user-123'' \<rparr>"
  let ?r1 = "Order_CreateOrder ?c NewServers \<lparr> CreateOrderRequest_Details = Some main_orderDetails \<rparr>"
  let ?r2 = "Payment_ProcessPayment ?c (snd ?r1)
               \<lparr> ProcessPaymentRequest_OrderId = Some ?oid,
                 ProcessPaymentRequest_PaymentInfo = Some main_paymentInfo \<rparr>"
  let ?r3 = "Shipping_ArrangeShipping ?c (snd ?r2)
               \<lparr> ArrangeShippingRequest_OrderId = Some ?oid,
                 ArrangeShippingRequest_Address = Some main_shippingAddress \<rparr>"
  let ?r4 = "Order_CompleteOrder ?c (snd ?r3) \<lparr> CompleteOrderRequest_OrderId = Some ?oid \<rparr>"
  let ?resp1 = "\<lparr> CreateOrderResponse_OrderId = Some ?oid,
                  CreateOrderResponse_Status = OrderStatus_PENDING \<rparr>"
  let ?resp2 = "\<lparr> ProcessPaymentResponse_PaymentId = ''pay-order-user-123'',
                  ProcessPaymentResponse_Status = PaymentStatus_SUCCESS,
                  ProcessPaymentResponse_Message = ''Payment processed successfully.'' \<rparr>"
  let ?resp3 = "\<lparr> ArrangeShippingResponse_ShipmentId = ''ship-order-user-123'',
                  ArrangeShippingResponse_Status = ShippingStatus_SHIPPED \<rparr>"
  have h1: "?r1 = (Inr ?resp1, snd ?r1)"
    by (simp add: run_simps)
  have h2: "CreateOrderResponse_OrderId ?resp1 = Some ?oid"
    by simp
  have h3: "?r2 = (Inr ?resp2, snd ?r2)"
    by (simp add: run_simps)
  have h4: "ProcessPaymentResponse_Status ?resp2 \<noteq> PaymentStatus_FAILED"
    by simp
  have h5: "?r3 = (Inr ?resp3, snd ?r3)"
    by (simp add: run_simps)
  have h6: "?r4 = (Inl (Errorf Unavailable ''connection error''), snd ?r3)"
    by (simp add: run_simps)
  have w: "map_option Order_Status (orders (snd ?r3) ''order-user-123'') = Some OrderStatus_PENDING"
    by (simp add: run_simps)
  show ?thesis
    using finalize_failure_keeps_success [OF h1 h2 h3 h4 h5 h6] h6 w
    by simp
qed

text \<open>
  \<^bold>\<open>C5.\<close>  A compensation function called with an empty id (for the order: a nil pointer or
  an empty id) returns without any remote call: the world behind the clients is
  untouched, whatever the clients are, and the run records the skip.  So, whatever the
  clients are, a run whose CreateOrder call fails ends in the world that call left, with
  no CancelOrder call; and a run whose ArrangeShipping call fails passes the world that
  call left straight to the payment and order compensations, with no CancelShipping
  call.  In every run of the deployed system in which CreateOrder succeeds and
  ProcessPayment fails (by an error or by status FAILED), the world the run leaves behind
  is the one the CancelOrder call for the created order produces from the world that
  ProcessPayment left: no RefundPayment call is made, so the payment server's map is what
  ProcessPayment left, and the order service does receive the CancelOrder call, so the
  order is CANCELLED unless that request was lost on its way.
\<close>

theorem missing_id_skips_compensation_call:
  assumes "Order_CreateOrder (service_clients env) w
             \<lparr> CreateOrderRequest_Details = details \<rparr> = (Inr createOrderResp, w1)"
    and "CreateOrderResponse_OrderId createOrderResp = Some orderID"
    and "Payment_ProcessPayment (service_clients env) w1
             \<lparr> ProcessPaymentRequest_OrderId = Some orderID,
               ProcessPaymentRequest_PaymentInfo = paymentInfo \<rparr> = (processPaymentRes, w2)"
    and "case processPaymentRes of
           Inl err \<Rightarrow> True
         | Inr processPaymentResp \<Rightarrow>
             ProcessPaymentResponse_Status processPaymentResp = PaymentStatus_FAILED"
  shows "compensateCreateOrder clients None run = (fst run, snd run @ [Skip_CancelOrder])
       \<and> compensateCreateOrder clients (Some \<lparr> OrderID_Id = [] \<rparr>) run
           = (fst run, snd run @ [Skip_CancelOrder])
       \<and> compensateProcessPayment clients oid [] run = (fst run, snd run @ [Skip_RefundPayment])
       \<and> compensateArrangeShipping clients oid [] run = (fst run, snd run @ [Skip_CancelShipping])
       \<and> (\<forall>w0 d p a err0 w1'.
             Order_CreateOrder clients w0 \<lparr> CreateOrderRequest_Details = d \<rparr> = (Inl err0, w1')
             \<longrightarrow> ExecuteCreateOrderSaga clients d p a w0
                   = (SagaError ''failed to create order'', w1',
                      [Call_CreateOrder \<lparr> CreateOrderRequest_Details = d \<rparr>, Skip_CancelOrder]))
       \<and> (\<forall>w0 d p a resp1 w1' o' resp2 w2' err3 w3'.
             Order_CreateOrder clients w0 \<lparr> CreateOrderRequest_Details = d \<rparr> = (Inr resp1, w1')
             \<and> CreateOrderResponse_OrderId resp1 = Some o'
             \<and> Payment_ProcessPayment clients w1'
                   \<lparr> ProcessPaymentRequest_OrderId = Some o',
                     ProcessPaymentRequest_PaymentInfo = p \<rparr> = (Inr resp2, w2')
             \<and> ProcessPaymentResponse_Status resp2 \<noteq> PaymentStatus_FAILED
             \<and> Shipping_ArrangeShipping clients w2'
                   \<lparr> ArrangeShippingRequest_OrderId = Some o',
                     ArrangeShippingRequest_Address = a \<rparr> = (Inl err3, w3')
             \<longrightarrow> ExecuteCreateOrderSaga clients d p a w0
                   = (SagaError ''failed to arrange shipping'',
                      compensateCreateOrder clients (Some o')
                        (compensateProcessPayment clients o'
                           (ProcessPaymentResponse_PaymentId resp2)
                           (w3', [Call_CreateOrder \<lparr> CreateOrderRequest_Details = d \<rparr>,
                                  Call_ProcessPayment
                                    \<lparr> ProcessPaymentRequest_OrderId = Some o',
                                      ProcessPaymentRequest_PaymentInfo = p \<rparr>,
                                  Call_ArrangeShipping
                                    \<lparr> ArrangeShippingRequest_OrderId = Some o',
                                      ArrangeShippingRequest_Address = a \<rparr>,
                                  Skip_CancelShipping]))))
       \<and> ExecuteCreateOrderSaga (service_clients env) details paymentInfo shippingAddr w
           = (SagaError ''failed to process payment'',
              snd (Order_CancelOrder (service_clients env) w2
                     \<lparr> CancelOrderRequest_OrderId = Some orderID \<rparr>),
              [Call_CreateOrder \<lparr> CreateOrderRequest_Details = details \<rparr>,
               Call_ProcessPayment \<lparr> ProcessPaymentRequest_OrderId = Some orderID,
                                     ProcessPaymentRequest_PaymentInfo = paymentInfo \<rparr>,
               Skip_RefundPayment,
               Call_CancelOrder \<lparr> CancelOrderRequest_OrderId = Some orderID \<rparr>])
       \<and> payments (fst (snd (ExecuteCreateOrderSaga (service_clients env)
                                details paymentInfo shippingAddr w))) = payments w2
       \<and> (net_CancelOrder env \<noteq> RequestLost \<longrightarrow>
            map_option Order_Status
              (orders (fst (snd (ExecuteCreateOrderSaga (service_clients env)
                                   details paymentInfo shippingAddr w))) (OrderID_Id orderID))
              = Some OrderStatus_CANCELLED)"
proof -
  have skips: "compensateCreateOrder clients None run = (fst run, snd run @ [Skip_CancelOrder])"
    "compensateCreateOrder clients (Some \<lparr> OrderID_Id = [] \<rparr>) run
           = (fst run, snd run @ [Skip_CancelOrder])"
    "compensateProcessPayment clients oid [] run = (fst run, snd run @ [Skip_RefundPayment])"
    "compensateArrangeShipping clients oid [] run = (fst run, snd run @ [Skip_CancelShipping])"
    by (simp_all add: compensateCreateOrder_def compensateProcessPayment_def
          compensateArrangeShipping_def)
  have create: "\<forall>w0 d p a err0 w1'.
             Order_CreateOrder clients w0 \<lparr> CreateOrderRequest_Details = d \<rparr> = (Inl err0, w1')
             \<longrightarrow> ExecuteCreateOrderSaga clients d p a w0
                   = (SagaError ''failed to create order'', w1',
                      [Call_CreateOrder \<lparr> CreateOrderRequest_Details = d \<rparr>, Skip_CancelOrder])"
    by (intro allI impI) (erule saga_CreateOrder_failed)
  have ship: "\<forall>w0 d p a resp1 w1' o' resp2 w2' err3 w3'.
             Order_CreateOrder clients w0 \<lparr> CreateOrderRequest_Details = d \<rparr> = (Inr resp1, w1')
             \<and> CreateOrderResponse_OrderId resp1 = Some o'
             \<and> Payment_ProcessPayment clients w1'
                   \<lparr> ProcessPaymentRequest_OrderId = Some o',
                     ProcessPaymentRequest_PaymentInfo = p \<rparr> = (Inr resp2, w2')
             \<and> ProcessPaymentResponse_Status resp2 \<noteq> PaymentStatus_FAILED
             \<and> Shipping_ArrangeShipping clients w2'
                   \<lparr> ArrangeShippingRequest_OrderId = Some o',
                     ArrangeShippingRequest_Address = a \<rparr> = (Inl err3, w3')
             \<longrightarrow> ExecuteCreateOrderSaga clients d p a w0
                   = (SagaError ''failed to arrange shipping'',
                      compensateCreateOrder clients (Some o')
                        (compensateProcessPayment clients o'
                           (ProcessPaymentResponse_PaymentId resp2)
                           (w3', [Call_CreateOrder \<lparr> CreateOrderRequest_Details = d \<rparr>,
                                  Call_ProcessPayment
                                    \<lparr> ProcessPaymentRequest_OrderId = Some o',
                                      ProcessPaymentRequest_PaymentInfo = p \<rparr>,
                                  Call_ArrangeShipping
                                    \<lparr> ArrangeShippingRequest_OrderId = Some o',
                                      ArrangeShippingRequest_Address = a \<rparr>,
                                  Skip_CancelShipping])))"
    by (intro allI impI) (elim conjE, rule saga_ArrangeShipping_failed, assumption+)
  note run = failed_payment_run [OF assms, of shippingAddr]
  have pays: "payments (snd (Order_CancelOrder (service_clients env) w2
                         \<lparr> CancelOrderRequest_OrderId = Some orderID \<rparr>)) = payments w2"
    by (simp add: service_frame)
  have w2: "w2 = snd (Payment_ProcessPayment (service_clients env) w1
                        \<lparr> ProcessPaymentRequest_OrderId = Some orderID,
                          ProcessPaymentRequest_PaymentInfo = paymentInfo \<rparr>)"
    using assms(3) by simp
  have "orders w2 = orders w1"
    by (subst w2) (simp add: service_frame)
  then have "map_option Order_Status (orders w2 (OrderID_Id orderID)) = Some OrderStatus_PENDING"
    using OrderID_Id_nonempty(2) [OF assms(1,2)] by simp
  then have cancelled: "net_CancelOrder env \<noteq> RequestLost \<Longrightarrow>
      map_option Order_Status
        (orders (snd (Order_CancelOrder (service_clients env) w2
                        \<lparr> CancelOrderRequest_OrderId = Some orderID \<rparr>)) (OrderID_Id orderID))
        = Some OrderStatus_CANCELLED"
    by (rule service_CancelOrder_cancels)
  from skips create ship pays cancelled show ?thesis
    unfolding run by simp
qed

text \<open>
  Instances on fresh servers: a CreateOrder whose request has no details, so that the
  handler panics and the call fails; the request of \<open>main\<close> with a shipping draw that
  fails; and the request of \<open>main\<close> with a ProcessPayment request that never reaches the
  payment service.
\<close>

theorem missing_id_skips_compensation_call_witness:
  "compensateProcessPayment (service_clients (all_delivered 5 0)) main_orderID []
       (NewServers, []) = (NewServers, [Skip_RefundPayment])
   \<and> ExecuteCreateOrderSaga (service_clients (all_delivered 5 0))
        None (Some main_paymentInfo) (Some main_shippingAddress) NewServers
     = (SagaError ''failed to create order'', NewServers,
        [Call_CreateOrder \<lparr> CreateOrderRequest_Details = None \<rparr>, Skip_CancelOrder])
   \<and> snd (snd (ExecuteCreateOrderSaga (service_clients (all_delivered 5 0))
        (Some main_orderDetails) (Some main_paymentInfo) (Some main_shippingAddress) NewServers))
     = [Call_CreateOrder \<lparr> CreateOrderRequest_Details = Some main_orderDetails \<rparr>,
        Call_ProcessPayment \<lparr> ProcessPaymentRequest_OrderId = Some main_orderID,
                              ProcessPaymentRequest_PaymentInfo = Some main_paymentInfo \<rparr>,
        Call_ArrangeShipping \<lparr> ArrangeShippingRequest_OrderId = Some main_orderID,
                               ArrangeShippingRequest_Address = Some main_shippingAddress \<rparr>,
        Skip_CancelShipping,
        Call_RefundPayment \<lparr> RefundPaymentRequest_OrderId = Some main_orderID,
                             RefundPaymentRequest_PaymentId = ''pay-order-user-123'' \<rparr>,
        Call_CancelOrder \<lparr> CancelOrderRequest_OrderId = Some main_orderID \<rparr>]
   \<and> ExecuteCreateOrderSaga
        (service_clients ((all_delivered 5 5)\<lparr> net_ProcessPayment := RequestLost \<rparr>))
        (Some main_orderDetails) (Some main_paymentInfo) (Some main_shippingAddress) NewServers
     = (SagaError ''failed to process payment'',
        \<lparr> orders = [''order-user-123'' \<mapsto>
             \<lparr> Order_Id = ''order-user-123'', Order_UserId = ''user-123'',
               Order_Items = OrderDetails_Items main_orderDetails,
               Order_TotalAmount = 0x42380000,
               Order_Status = OrderStatus_CANCELLED \<rparr>],
          payments = Map.empty, shipments = Map.empty \<rparr>,
        [Call_CreateOrder \<lparr> CreateOrderRequest_Details = Some main_orderDetails \<rparr>,
         Call_ProcessPayment \<lparr> ProcessPaymentRequest_OrderId = Some main_orderID,
                               ProcessPaymentRequest_PaymentInfo = Some main_paymentInfo \<rparr>,
         Skip_RefundPayment,
         Call_CancelOrder \<lparr> CancelOrderRequest_OrderId = Some main_orderID \<rparr>])"
proof -
  let ?c = "service_clients ((all_delivered 5 5)\<lparr> net_ProcessPayment := RequestLost \<rparr>)"
  let ?k = "service_clients (all_delivered 5 0)"
  let ?oid = "\<lparr> OrderID_Id = ''order-user-123'' \<rparr>"
  let ?creq = "\<lparr> CreateOrderRequest_Details = Some main_orderDetails \<rparr>"
  let ?preq = "\<lparr> ProcessPaymentRequest_OrderId = Some ?oid,
                 ProcessPaymentRequest_PaymentInfo = Some main_paymentInfo \<rparr>"
  let ?areq = "\<lparr> ArrangeShippingRequest_OrderId = Some ?oid,
                 ArrangeShippingRequest_Address = Some main_shippingAddress \<rparr>"
  let ?resp1 = "\<lparr> CreateOrderResponse_OrderId = Some ?oid,
                  CreateOrderResponse_Status = OrderStatus_PENDING \<rparr>"
  let ?resp2 = "\<lparr> ProcessPaymentResponse_PaymentId = ''pay-order-user-123'',
                  ProcessPaymentResponse_Status = PaymentStatus_SUCCESS,
                  ProcessPaymentResponse_Message = ''Payment processed successfully.'' \<rparr>"
  let ?r1 = "Order_CreateOrder ?c NewServers ?creq"
  let ?r2 = "Payment_ProcessPayment ?c (snd ?r1) ?preq"
  let ?q1 = "Order_CreateOrder ?k NewServers ?creq"
  let ?q2 = "Payment_ProcessPayment ?k (snd ?q1) ?preq"
  let ?q3 = "Shipping_ArrangeShipping ?k (snd ?q2) ?areq"
  have h1: "?r1 = (Inr ?resp1, snd ?r1)"
    by (simp add: run_simps)
  have h2: "CreateOrderResponse_OrderId ?resp1 = Some ?oid"
    by simp
  have h3: "?r2 = (Inl (Errorf Unavailable ''connection error''), snd ?r1)"
    by (simp add: run_simps)
  have h4: "case Inl (Errorf Unavailable ''connection error'') of
              Inl err \<Rightarrow> True
            | Inr processPaymentResp \<Rightarrow>
                ProcessPaymentResponse_Status processPaymentResp = PaymentStatus_FAILED"
    by simp
  have g0: "Order_CreateOrder ?k NewServers \<lparr> CreateOrderRequest_Details = None \<rparr>
              = (Inl (Errorf Unavailable ''error reading from server: EOF''), NewServers)"
    by (simp add: run_simps)
  have g1: "?q1 = (Inr ?resp1, snd ?q1)"
    by (simp add: run_simps)
  have g3: "?q2 = (Inr ?resp2, snd ?q2)"
    by (simp add: run_simps)
  have g4: "ProcessPaymentResponse_Status ?resp2 \<noteq> PaymentStatus_FAILED"
    by simp
  have g5: "?q3 = (Inl (Errorf Internal
              ''Failed to arrange shipping for order order-user-123: Carrier unavailable''),
            snd ?q3)"
    by (simp add: run_simps)
  have w: "snd (Order_CancelOrder ?c (snd ?r1) \<lparr> CancelOrderRequest_OrderId = Some ?oid \<rparr>)
      = \<lparr> orders = [''order-user-123'' \<mapsto>
             \<lparr> Order_Id = ''order-user-123'', Order_UserId = ''user-123'',
               Order_Items = OrderDetails_Items main_orderDetails,
               Order_TotalAmount = 0x42380000,
               Order_Status = OrderStatus_CANCELLED \<rparr>],
          payments = Map.empty, shipments = Map.empty \<rparr>"
    by (simp add: service_clients_sel rpc_def CreateOrder_def CancelOrder_def Let_def
          NewServers_def all_delivered_def main_total)
       (simp add: main_orderDetails_def)
  note inst = missing_id_skips_compensation_call
         [OF h1 h2 h3 h4, of ?k "(NewServers, [])" main_orderID "Some main_shippingAddress"]
  from inst have a: "compensateProcessPayment ?k main_orderID [] (NewServers, [])
                      = (NewServers, [Skip_RefundPayment])"
    by simp
  from inst g0 have b: "ExecuteCreateOrderSaga ?k None (Some main_paymentInfo)
        (Some main_shippingAddress) NewServers
     = (SagaError ''failed to create order'', NewServers,
        [Call_CreateOrder \<lparr> CreateOrderRequest_Details = None \<rparr>, Skip_CancelOrder])"
    by blast
  from inst g1 h2 g3 g4 g5
  have "ExecuteCreateOrderSaga ?k (Some main_orderDetails) (Some main_paymentInfo)
          (Some main_shippingAddress) NewServers
      = (SagaError ''failed to arrange shipping'',
         compensateCreateOrder ?k (Some ?oid)
           (compensateProcessPayment ?k ?oid (ProcessPaymentResponse_PaymentId ?resp2)
              (snd ?q3, [Call_CreateOrder ?creq, Call_ProcessPayment ?preq,
                         Call_ArrangeShipping ?areq, Skip_CancelShipping])))"
    by blast
  then have c: "snd (snd (ExecuteCreateOrderSaga ?k (Some main_orderDetails)
          (Some main_paymentInfo) (Some main_shippingAddress) NewServers))
     = [Call_CreateOrder ?creq, Call_ProcessPayment ?preq, Call_ArrangeShipping ?areq,
        Skip_CancelShipping,
        Call_RefundPayment \<lparr> RefundPaymentRequest_OrderId = Some ?oid,
                             RefundPaymentRequest_PaymentId = ''pay-order-user-123'' \<rparr>,
        Call_CancelOrder \<lparr> CancelOrderRequest_OrderId = Some ?oid \<rparr>]"
    by (simp add: calls_compensateCreateOrder calls_compensateProcessPayment)
  from inst have d: "ExecuteCreateOrderSaga ?c (Some main_orderDetails) (Some main_paymentInfo)
          (Some main_shippingAddress) NewServers
      = (SagaError ''failed to process payment'',
         snd (Order_CancelOrder ?c (snd ?r1) \<lparr> CancelOrderRequest_OrderId = Some ?oid \<rparr>),
         [Call_CreateOrder ?creq, Call_ProcessPayment ?preq, Skip_RefundPayment,
          Call_CancelOrder \<lparr> CancelOrderRequest_OrderId = Some ?oid \<rparr>])"
    by blast
  show ?thesis
    using a b c d by (simp add: w main_orderID_def)
qed

section \<open>Properties of the services\<close>

text \<open>
  \<^bold>\<open>C6\<close> (amended).  The statuses REFUNDED and CANCELLED are terminal: for every world,
  every record and every sequence of the operations CancelOrder, CompleteOrder,
  RefundPayment and CancelShipping, an order that is CANCELLED stays CANCELLED, a payment
  that is REFUNDED stays REFUNDED and a shipment that is CANCELLED stays CANCELLED.  An
  order that is COMPLETED stays COMPLETED under every sequence of these operations that
  does not contain CancelOrder for that order; CancelOrder moves a COMPLETED order to
  CANCELLED.
\<close>

theorem compensated_statuses_terminal_completed_until_cancelled:
  "(map_option Order_Status (orders w ko) = Some OrderStatus_CANCELLED
      \<longrightarrow> map_option Order_Status (orders (apply_ops w xs) ko) = Some OrderStatus_CANCELLED)
   \<and> (map_option Payment_Status (payments w kp) = Some PaymentStatus_REFUNDED
      \<longrightarrow> map_option Payment_Status (payments (apply_ops w xs) kp) = Some PaymentStatus_REFUNDED)
   \<and> (map_option Shipment_Status (shipments w ks) = Some ShippingStatus_CANCELLED
      \<longrightarrow> map_option Shipment_Status (shipments (apply_ops w xs) ks)
            = Some ShippingStatus_CANCELLED)
   \<and> (map_option Order_Status (orders w' kc) = Some OrderStatus_COMPLETED
        \<and> Op_CancelOrder \<lparr> CancelOrderRequest_OrderId = Some (\<lparr> OrderID_Id = kc \<rparr>) \<rparr> \<notin> set ys
      \<longrightarrow> map_option Order_Status (orders (apply_ops w' ys) kc) = Some OrderStatus_COMPLETED)
   \<and> (map_option Order_Status (orders w' kc) = Some OrderStatus_COMPLETED
      \<longrightarrow> map_option Order_Status
            (orders (apply_op w'
                (Op_CancelOrder \<lparr> CancelOrderRequest_OrderId = Some (\<lparr> OrderID_Id = kc \<rparr>) \<rparr>)) kc)
            = Some OrderStatus_CANCELLED)"
  using apply_ops_order_cancelled apply_ops_payment_refunded apply_ops_shipment_cancelled
    apply_ops_order_completed
  by (auto simp add: CancelOrder_def map_after_def Let_def)

text \<open>
  An instance, on the servers after a successful run and after the three compensations.
\<close>

theorem compensated_statuses_terminal_completed_until_cancelled_witness:
  "map_option Order_Status (orders after_compensations ''order-user-123'')
     = Some OrderStatus_CANCELLED
   \<and> map_option Order_Status
        (orders (apply_ops after_compensations
           [Op_CompleteOrder \<lparr> CompleteOrderRequest_OrderId = Some main_orderID \<rparr>,
            Op_CancelOrder \<lparr> CancelOrderRequest_OrderId = Some main_orderID \<rparr>,
            Op_RefundPayment \<lparr> RefundPaymentRequest_OrderId = Some main_orderID,
                               RefundPaymentRequest_PaymentId = ''pay-order-user-123'' \<rparr>,
            Op_CancelShipping \<lparr> CancelShippingRequest_OrderId = Some main_orderID,
                                CancelShippingRequest_ShipmentId = ''ship-order-user-123'' \<rparr>])
           ''order-user-123'')
     = Some OrderStatus_CANCELLED
   \<and> map_option Payment_Status
        (payments (apply_ops after_compensations
           [Op_CompleteOrder \<lparr> CompleteOrderRequest_OrderId = Some main_orderID \<rparr>,
            Op_CancelOrder \<lparr> CancelOrderRequest_OrderId = Some main_orderID \<rparr>,
            Op_RefundPayment \<lparr> RefundPaymentRequest_OrderId = Some main_orderID,
                               RefundPaymentRequest_PaymentId = ''pay-order-user-123'' \<rparr>,
            Op_CancelShipping \<lparr> CancelShippingRequest_OrderId = Some main_orderID,
                                CancelShippingRequest_ShipmentId = ''ship-order-user-123'' \<rparr>])
           ''pay-order-user-123'')
     = Some PaymentStatus_REFUNDED
   \<and> map_option Shipment_Status
        (shipments (apply_ops after_compensations
           [Op_CompleteOrder \<lparr> CompleteOrderRequest_OrderId = Some main_orderID \<rparr>,
            Op_CancelOrder \<lparr> CancelOrderRequest_OrderId = Some main_orderID \<rparr>,
            Op_RefundPayment \<lparr> RefundPaymentRequest_OrderId = Some main_orderID,
                               RefundPaymentRequest_PaymentId = ''pay-order-user-123'' \<rparr>,
            Op_CancelShipping \<lparr> CancelShippingRequest_OrderId = Some main_orderID,
                                CancelShippingRequest_ShipmentId = ''ship-order-user-123'' \<rparr>])
           ''ship-order-user-123'')
     = Some ShippingStatus_CANCELLED
   \<and> map_option Order_Status (orders after_successful_run ''order-user-123'')
     = Some OrderStatus_COMPLETED
   \<and> map_option Order_Status
        (orders (apply_ops after_successful_run
           [Op_CompleteOrder \<lparr> CompleteOrderRequest_OrderId = Some main_orderID \<rparr>,
            Op_RefundPayment \<lparr> RefundPaymentRequest_OrderId = Some main_orderID,
                               RefundPaymentRequest_PaymentId = ''pay-order-user-123'' \<rparr>,
            Op_CancelShipping \<lparr> CancelShippingRequest_OrderId = Some main_orderID,
                                CancelShippingRequest_ShipmentId = ''ship-order-user-123'' \<rparr>])
           ''order-user-123'')
     = Some OrderStatus_COMPLETED
   \<and> map_option Order_Status
        (orders (apply_op after_successful_run
           (Op_CancelOrder \<lparr> CancelOrderRequest_OrderId = Some (\<lparr> OrderID_Id = ''order-user-123'' \<rparr>) \<rparr>))
           ''order-user-123'')
     = Some OrderStatus_CANCELLED"
proof -
  let ?xs = "[Op_CompleteOrder \<lparr> CompleteOrderRequest_OrderId = Some main_orderID \<rparr>,
            Op_CancelOrder \<lparr> CancelOrderRequest_OrderId = Some main_orderID \<rparr>,
            Op_RefundPayment \<lparr> RefundPaymentRequest_OrderId = Some main_orderID,
                               RefundPaymentRequest_PaymentId = ''pay-order-user-123'' \<rparr>,
            Op_CancelShipping \<lparr> CancelShippingRequest_OrderId = Some main_orderID,
                                CancelShippingRequest_ShipmentId = ''ship-order-user-123'' \<rparr>]"
  let ?ys = "[Op_CompleteOrder \<lparr> CompleteOrderRequest_OrderId = Some main_orderID \<rparr>,
            Op_RefundPayment \<lparr> RefundPaymentRequest_OrderId = Some main_orderID,
                               RefundPaymentRequest_PaymentId = ''pay-order-user-123'' \<rparr>,
            Op_CancelShipping \<lparr> CancelShippingRequest_OrderId = Some main_orderID,
                                CancelShippingRequest_ShipmentId = ''ship-order-user-123'' \<rparr>]"
  have a: "map_option Order_Status (orders after_compensations ''order-user-123'')
             = Some OrderStatus_CANCELLED"
    by (simp add: after_compensations_eval)
  have b: "map_option Payment_Status (payments after_compensations ''pay-order-user-123'')
             = Some PaymentStatus_REFUNDED"
    by (simp add: after_compensations_eval)
  have c: "map_option Shipment_Status (shipments after_compensations ''ship-order-user-123'')
             = Some ShippingStatus_CANCELLED"
    by (simp add: after_compensations_eval)
  have d: "map_option Order_Status (orders after_successful_run ''order-user-123'')
             = Some OrderStatus_COMPLETED"
    by (simp add: after_successful_run_eval)
  have e: "Op_CancelOrder \<lparr> CancelOrderRequest_OrderId = Some (\<lparr> OrderID_Id = ''order-user-123'' \<rparr>) \<rparr>
             \<notin> set ?ys"
    by simp
  from compensated_statuses_terminal_completed_until_cancelled
         [of after_compensations "''order-user-123''" ?xs "''pay-order-user-123''"
             "''ship-order-user-123''" after_successful_run "''order-user-123''" ?ys]
  show ?thesis
    using a b c d e by blast
qed

text \<open>
  \<^bold>\<open>C6\<close> as first stated also takes COMPLETED to be terminal.  After a successful run the
  order is COMPLETED; one CancelOrder call moves it to CANCELLED.
\<close>

theorem cancel_order_moves_completed_to_cancelled:
  "map_option Order_Status (orders after_successful_run ''order-user-123'')
     = Some OrderStatus_COMPLETED
   \<and> map_option Order_Status
        (orders (apply_ops after_successful_run
                   [Op_CancelOrder \<lparr> CancelOrderRequest_OrderId = Some main_orderID \<rparr>])
           ''order-user-123'')
     = Some OrderStatus_CANCELLED"
  by (simp add: after_successful_run_eval apply_ops_def CancelOrder_def map_after_def Let_def
        main_orderID_def)

text \<open>
  \<^bold>\<open>C7.\<close>  Each compensating action is idempotent.  Called for a record that is already in
  its compensated state (a CANCELLED order; a REFUNDED payment or a CANCELLED shipment of
  the order named in the request), it returns success with a message and leaves the map
  as it is.  Called twice for the same existing record (of the order named in the
  request), it returns success both times, and the second call leaves the map exactly as
  the first call left it, so the status does not change after the first call.
\<close>

theorem compensation_idempotent:
  "(\<forall>oid ord. CancelOrderRequest_OrderId creq = Some oid
        \<and> s (OrderID_Id oid) = Some ord
        \<and> Order_Status ord = OrderStatus_CANCELLED
      \<longrightarrow> CancelOrder s creq =
            Some (Inr \<lparr> CompensationResponse_Success = True,
                        CompensationResponse_Message = ''Order already cancelled'' \<rparr>, s))
   \<and> (\<forall>oid pay. RefundPaymentRequest_OrderId rreq = Some oid
        \<and> p (RefundPaymentRequest_PaymentId rreq) = Some pay
        \<and> OrderID_Id (Payment_OrderId pay) = OrderID_Id oid
        \<and> Payment_Status pay = PaymentStatus_REFUNDED
      \<longrightarrow> RefundPayment p rreq =
            Some (Inr \<lparr> CompensationResponse_Success = True,
                        CompensationResponse_Message = ''Payment already refunded'' \<rparr>, p))
   \<and> (\<forall>oid sh. CancelShippingRequest_OrderId sreq = Some oid
        \<and> t (CancelShippingRequest_ShipmentId sreq) = Some sh
        \<and> OrderID_Id (Shipment_OrderId sh) = OrderID_Id oid
        \<and> Shipment_Status sh = ShippingStatus_CANCELLED
      \<longrightarrow> CancelShipping t sreq =
            Some (Inr \<lparr> CompensationResponse_Success = True,
                        CompensationResponse_Message = ''Shipment already cancelled'' \<rparr>, t))
   \<and> (\<forall>oid ord. CancelOrderRequest_OrderId creq' = Some oid
        \<and> s' (OrderID_Id oid) = Some ord
      \<longrightarrow> (\<exists>r1 s1 r2. CancelOrder s' creq' = Some (Inr r1, s1)
             \<and> CompensationResponse_Success r1
             \<and> CancelOrder s1 creq' = Some (Inr r2, s1) \<and> CompensationResponse_Success r2))
   \<and> (\<forall>oid pay. RefundPaymentRequest_OrderId rreq' = Some oid
        \<and> p' (RefundPaymentRequest_PaymentId rreq') = Some pay
        \<and> OrderID_Id (Payment_OrderId pay) = OrderID_Id oid
      \<longrightarrow> (\<exists>r1 p1 r2. RefundPayment p' rreq' = Some (Inr r1, p1)
             \<and> CompensationResponse_Success r1
             \<and> RefundPayment p1 rreq' = Some (Inr r2, p1) \<and> CompensationResponse_Success r2))
   \<and> (\<forall>oid sh. CancelShippingRequest_OrderId sreq' = Some oid
        \<and> t' (CancelShippingRequest_ShipmentId sreq') = Some sh
        \<and> OrderID_Id (Shipment_OrderId sh) = OrderID_Id oid
      \<longrightarrow> (\<exists>r1 t1 r2. CancelShipping t' sreq' = Some (Inr r1, t1)
             \<and> CompensationResponse_Success r1
             \<and> CancelShipping t1 sreq' = Some (Inr r2, t1) \<and> CompensationResponse_Success r2))"
proof (intro conjI allI impI)
  fix oid ord
  assume "CancelOrderRequest_OrderId creq = Some oid \<and> s (OrderID_Id oid) = Some ord
            \<and> Order_Status ord = OrderStatus_CANCELLED"
  then show "CancelOrder s creq =
      Some (Inr \<lparr> CompensationResponse_Success = True,
                  CompensationResponse_Message = ''Order already cancelled'' \<rparr>, s)"
    by (simp add: CancelOrder_def Let_def)
next
  fix oid pay
  assume "RefundPaymentRequest_OrderId rreq = Some oid
        \<and> p (RefundPaymentRequest_PaymentId rreq) = Some pay
        \<and> OrderID_Id (Payment_OrderId pay) = OrderID_Id oid
        \<and> Payment_Status pay = PaymentStatus_REFUNDED"
  then show "RefundPayment p rreq =
      Some (Inr \<lparr> CompensationResponse_Success = True,
                  CompensationResponse_Message = ''Payment already refunded'' \<rparr>, p)"
    by (simp add: RefundPayment_def Let_def)
next
  fix oid sh
  assume "CancelShippingRequest_OrderId sreq = Some oid
        \<and> t (CancelShippingRequest_ShipmentId sreq) = Some sh
        \<and> OrderID_Id (Shipment_OrderId sh) = OrderID_Id oid
        \<and> Shipment_Status sh = ShippingStatus_CANCELLED"
  then show "CancelShipping t sreq =
      Some (Inr \<lparr> CompensationResponse_Success = True,
                  CompensationResponse_Message = ''Shipment already cancelled'' \<rparr>, t)"
    by (simp add: CancelShipping_def Let_def)
next
  fix oid ord
  assume "CancelOrderRequest_OrderId creq' = Some oid \<and> s' (OrderID_Id oid) = Some ord"
  then show "\<exists>r1 s1 r2. CancelOrder s' creq' = Some (Inr r1, s1)
             \<and> CompensationResponse_Success r1
             \<and> CancelOrder s1 creq' = Some (Inr r2, s1) \<and> CompensationResponse_Success r2"
    by (simp add: CancelOrder_def Let_def)
next
  fix oid pay
  assume "RefundPaymentRequest_OrderId rreq' = Some oid
        \<and> p' (RefundPaymentRequest_PaymentId rreq') = Some pay
        \<and> OrderID_Id (Payment_OrderId pay) = OrderID_Id oid"
  then show "\<exists>r1 p1 r2. RefundPayment p' rreq' = Some (Inr r1, p1)
             \<and> CompensationResponse_Success r1
             \<and> RefundPayment p1 rreq' = Some (Inr r2, p1) \<and> CompensationResponse_Success r2"
    by (simp add: RefundPayment_def Let_def)
next
  fix oid sh
  assume "CancelShippingRequest_OrderId sreq' = Some oid
        \<and> t' (CancelShippingRequest_ShipmentId sreq') = Some sh
        \<and> OrderID_Id (Shipment_OrderId sh) = OrderID_Id oid"
  then show "\<exists>r1 t1 r2. CancelShipping t' sreq' = Some (Inr r1, t1)
             \<and> CompensationResponse_Success r1
             \<and> CancelShipping t1 sreq' = Some (Inr r2, t1) \<and> CompensationResponse_Success r2"
    by (simp add: CancelShipping_def Let_def)
qed

text \<open>
  An instance: the three compensations on the servers after they have each been called
  once, and twice in a row on the servers after a successful run.
\<close>

theorem compensation_idempotent_witness:
  "CancelOrder (orders after_compensations) \<lparr> CancelOrderRequest_OrderId = Some main_orderID \<rparr>
     = Some (Inr \<lparr> CompensationResponse_Success = True,
                   CompensationResponse_Message = ''Order already cancelled'' \<rparr>,
             orders after_compensations)
   \<and> RefundPayment (payments after_compensations)
        \<lparr> RefundPaymentRequest_OrderId = Some main_orderID,
          RefundPaymentRequest_PaymentId = ''pay-order-user-123'' \<rparr>
     = Some (Inr \<lparr> CompensationResponse_Success = True,
                   CompensationResponse_Message = ''Payment already refunded'' \<rparr>,
             payments after_compensations)
   \<and> CancelShipping (shipments after_compensations)
        \<lparr> CancelShippingRequest_OrderId = Some main_orderID,
          CancelShippingRequest_ShipmentId = ''ship-order-user-123'' \<rparr>
     = Some (Inr \<lparr> CompensationResponse_Success = True,
                   CompensationResponse_Message = ''Shipment already cancelled'' \<rparr>,
             shipments after_compensations)
   \<and> (\<exists>r1 s1 r2.
         CancelOrder (orders after_successful_run)
           \<lparr> CancelOrderRequest_OrderId = Some main_orderID \<rparr> = Some (Inr r1, s1)
         \<and> CompensationResponse_Success r1
         \<and> CancelOrder s1 \<lparr> CancelOrderRequest_OrderId = Some main_orderID \<rparr> = Some (Inr r2, s1)
         \<and> CompensationResponse_Success r2)
   \<and> (\<exists>r1 p1 r2.
         RefundPayment (payments after_successful_run)
           \<lparr> RefundPaymentRequest_OrderId = Some main_orderID,
             RefundPaymentRequest_PaymentId = ''pay-order-user-123'' \<rparr> = Some (Inr r1, p1)
         \<and> CompensationResponse_Success r1
         \<and> RefundPayment p1
              \<lparr> RefundPaymentRequest_OrderId = Some main_orderID,
                RefundPaymentRequest_PaymentId = ''pay-order-user-123'' \<rparr> = Some (Inr r2, p1)
         \<and> CompensationResponse_Success r2)
   \<and> (\<exists>r1 t1 r2.
         CancelShipping (shipments after_successful_run)
           \<lparr> CancelShippingRequest_OrderId = Some main_orderID,
             CancelShippingRequest_ShipmentId = ''ship-order-user-123'' \<rparr> = Some (Inr r1, t1)
         \<and> CompensationResponse_Success r1
         \<and> CancelShipping t1
              \<lparr> CancelShippingRequest_OrderId = Some main_orderID,
                CancelShippingRequest_ShipmentId = ''ship-order-user-123'' \<rparr> = Some (Inr r2, t1)
         \<and> CompensationResponse_Success r2)"
proof -
  let ?creq = "\<lparr> CancelOrderRequest_OrderId = Some main_orderID \<rparr>"
  let ?rreq = "\<lparr> RefundPaymentRequest_OrderId = Some main_orderID,
                 RefundPaymentRequest_PaymentId = ''pay-order-user-123'' \<rparr>"
  let ?sreq = "\<lparr> CancelShippingRequest_OrderId = Some main_orderID,
                 CancelShippingRequest_ShipmentId = ''ship-order-user-123'' \<rparr>"
  have a: "\<exists>ord. CancelOrderRequest_OrderId ?creq = Some main_orderID
             \<and> orders after_compensations (OrderID_Id main_orderID) = Some ord
             \<and> Order_Status ord = OrderStatus_CANCELLED"
    by (simp add: after_compensations_eval main_orderID_def)
  have b: "\<exists>pay. RefundPaymentRequest_OrderId ?rreq = Some main_orderID
             \<and> payments after_compensations (RefundPaymentRequest_PaymentId ?rreq) = Some pay
             \<and> OrderID_Id (Payment_OrderId pay) = OrderID_Id main_orderID
             \<and> Payment_Status pay = PaymentStatus_REFUNDED"
    by (simp add: after_compensations_eval main_orderID_def)
  have c: "\<exists>sh. CancelShippingRequest_OrderId ?sreq = Some main_orderID
             \<and> shipments after_compensations (CancelShippingRequest_ShipmentId ?sreq) = Some sh
             \<and> OrderID_Id (Shipment_OrderId sh) = OrderID_Id main_orderID
             \<and> Shipment_Status sh = ShippingStatus_CANCELLED"
    by (simp add: after_compensations_eval main_orderID_def)
  have d: "\<exists>ord. CancelOrderRequest_OrderId ?creq = Some main_orderID
             \<and> orders after_successful_run (OrderID_Id main_orderID) = Some ord"
    by (simp add: after_successful_run_eval main_orderID_def)
  have e: "\<exists>pay. RefundPaymentRequest_OrderId ?rreq = Some main_orderID
             \<and> payments after_successful_run (RefundPaymentRequest_PaymentId ?rreq) = Some pay
             \<and> OrderID_Id (Payment_OrderId pay) = OrderID_Id main_orderID"
    by (simp add: after_successful_run_eval main_orderID_def)
  have f: "\<exists>sh. CancelShippingRequest_OrderId ?sreq = Some main_orderID
             \<and> shipments after_successful_run (CancelShippingRequest_ShipmentId ?sreq) = Some sh
             \<and> OrderID_Id (Shipment_OrderId sh) = OrderID_Id main_orderID"
    by (simp add: after_successful_run_eval main_orderID_def)
  from compensation_idempotent
         [of ?creq "orders after_compensations" ?rreq "payments after_compensations"
             ?sreq "shipments after_compensations"
             ?creq "orders after_successful_run" ?rreq "payments after_successful_run"
             ?sreq "shipments after_successful_run"]
  show ?thesis
    using a b c d e f by blast
qed

text \<open>
  \<^bold>\<open>C8\<close> (amended).  A compensation call whose request carries its order id fails with
  NotFound when no record is stored under the id it names; a RefundPayment or
  CancelShipping call for a record that exists but belongs to another order than the one
  named in the request fails with InvalidArgument; in each of these cases the map is
  returned unchanged.  (CancelOrder is given the order id only and looks the record up
  under it; a record found there carries that id, see \<open>orders_keyed_CreateOrder\<close> and
  the two lemmas after it.)  A compensation call whose request carries no order id is
  not answered at all: the handler panics at \<open>req.OrderId.Id\<close>, before it looks anything
  up, whether a record exists or not.
\<close>

theorem compensation_rejects_unknown_or_foreign:
  "(\<forall>oid. CancelOrderRequest_OrderId creq = Some oid \<and> s (OrderID_Id oid) = None
      \<longrightarrow> CancelOrder s creq =
            Some (Inl (Errorf NotFound (''Order '' @ OrderID_Id oid @ '' not found'')), s))
   \<and> (\<forall>oid. RefundPaymentRequest_OrderId rreq = Some oid
        \<and> p (RefundPaymentRequest_PaymentId rreq) = None
      \<longrightarrow> RefundPayment p rreq =
            Some (Inl (Errorf NotFound
                    (''Payment '' @ RefundPaymentRequest_PaymentId rreq @ '' not found'')), p))
   \<and> (\<forall>oid pay. RefundPaymentRequest_OrderId rreq' = Some oid
        \<and> p' (RefundPaymentRequest_PaymentId rreq') = Some pay
        \<and> OrderID_Id (Payment_OrderId pay) \<noteq> OrderID_Id oid
      \<longrightarrow> RefundPayment p' rreq' =
            Some (Inl (Errorf InvalidArgument
                    (''Payment '' @ RefundPaymentRequest_PaymentId rreq'
                       @ '' does not belong to order '' @ OrderID_Id oid)), p'))
   \<and> (\<forall>oid. CancelShippingRequest_OrderId sreq = Some oid
        \<and> t (CancelShippingRequest_ShipmentId sreq) = None
      \<longrightarrow> CancelShipping t sreq =
            Some (Inl (Errorf NotFound
                    (''Shipment '' @ CancelShippingRequest_ShipmentId sreq @ '' not found'')), t))
   \<and> (\<forall>oid sh. CancelShippingRequest_OrderId sreq' = Some oid
        \<and> t' (CancelShippingRequest_ShipmentId sreq') = Some sh
        \<and> OrderID_Id (Shipment_OrderId sh) \<noteq> OrderID_Id oid
      \<longrightarrow> CancelShipping t' sreq' =
            Some (Inl (Errorf InvalidArgument
                    (''Shipment '' @ CancelShippingRequest_ShipmentId sreq'
                       @ '' does not belong to order '' @ OrderID_Id oid)), t'))
   \<and> CancelOrder s0 \<lparr> CancelOrderRequest_OrderId = None \<rparr> = None
   \<and> RefundPayment p0 \<lparr> RefundPaymentRequest_OrderId = None,
                          RefundPaymentRequest_PaymentId = pid0 \<rparr> = None
   \<and> CancelShipping t0 \<lparr> CancelShippingRequest_OrderId = None,
                           CancelShippingRequest_ShipmentId = sid0 \<rparr> = None"
  by (simp add: CancelOrder_def RefundPayment_def CancelShipping_def Let_def)

text \<open>
  An instance: unknown ids on fresh servers, and the records of one order requested for
  another.
\<close>

theorem compensation_rejects_unknown_or_foreign_witness:
  "CancelOrder (orders NewServers) \<lparr> CancelOrderRequest_OrderId = Some main_orderID \<rparr>
     = Some (Inl (Errorf NotFound ''Order order-user-123 not found''), orders NewServers)
   \<and> RefundPayment (payments NewServers)
        \<lparr> RefundPaymentRequest_OrderId = Some main_orderID,
          RefundPaymentRequest_PaymentId = ''pay-order-user-123'' \<rparr>
     = Some (Inl (Errorf NotFound ''Payment pay-order-user-123 not found''), payments NewServers)
   \<and> RefundPayment (payments after_successful_run)
        \<lparr> RefundPaymentRequest_OrderId = Some \<lparr> OrderID_Id = ''order-user-456'' \<rparr>,
          RefundPaymentRequest_PaymentId = ''pay-order-user-123'' \<rparr>
     = Some (Inl (Errorf InvalidArgument
                    ''Payment pay-order-user-123 does not belong to order order-user-456''),
             payments after_successful_run)
   \<and> CancelShipping (shipments NewServers)
        \<lparr> CancelShippingRequest_OrderId = Some main_orderID,
          CancelShippingRequest_ShipmentId = ''ship-order-user-123'' \<rparr>
     = Some (Inl (Errorf NotFound ''Shipment ship-order-user-123 not found''),
             shipments NewServers)
   \<and> CancelShipping (shipments after_successful_run)
        \<lparr> CancelShippingRequest_OrderId = Some \<lparr> OrderID_Id = ''order-user-456'' \<rparr>,
          CancelShippingRequest_ShipmentId = ''ship-order-user-123'' \<rparr>
     = Some (Inl (Errorf InvalidArgument
                    ''Shipment ship-order-user-123 does not belong to order order-user-456''),
             shipments after_successful_run)"
proof -
  let ?other = "\<lparr> OrderID_Id = ''order-user-456'' \<rparr>"
  let ?creq = "\<lparr> CancelOrderRequest_OrderId = Some main_orderID \<rparr>"
  let ?rreq = "\<lparr> RefundPaymentRequest_OrderId = Some main_orderID,
                 RefundPaymentRequest_PaymentId = ''pay-order-user-123'' \<rparr>"
  let ?rreq' = "\<lparr> RefundPaymentRequest_OrderId = Some ?other,
                  RefundPaymentRequest_PaymentId = ''pay-order-user-123'' \<rparr>"
  let ?sreq = "\<lparr> CancelShippingRequest_OrderId = Some main_orderID,
                 CancelShippingRequest_ShipmentId = ''ship-order-user-123'' \<rparr>"
  let ?sreq' = "\<lparr> CancelShippingRequest_OrderId = Some ?other,
                  CancelShippingRequest_ShipmentId = ''ship-order-user-123'' \<rparr>"
  have a: "CancelOrderRequest_OrderId ?creq = Some main_orderID
             \<and> orders NewServers (OrderID_Id main_orderID) = None"
    by (simp add: NewServers_def)
  have b: "RefundPaymentRequest_OrderId ?rreq = Some main_orderID
             \<and> payments NewServers (RefundPaymentRequest_PaymentId ?rreq) = None"
    by (simp add: NewServers_def)
  have c: "\<exists>pay. RefundPaymentRequest_OrderId ?rreq' = Some ?other
             \<and> payments after_successful_run (RefundPaymentRequest_PaymentId ?rreq') = Some pay
             \<and> OrderID_Id (Payment_OrderId pay) \<noteq> OrderID_Id ?other"
    by (simp add: after_successful_run_eval main_orderID_def)
  have d: "CancelShippingRequest_OrderId ?sreq = Some main_orderID
             \<and> shipments NewServers (CancelShippingRequest_ShipmentId ?sreq) = None"
    by (simp add: NewServers_def)
  have e: "\<exists>sh. CancelShippingRequest_OrderId ?sreq' = Some ?other
             \<and> shipments after_successful_run (CancelShippingRequest_ShipmentId ?sreq') = Some sh
             \<and> OrderID_Id (Shipment_OrderId sh) \<noteq> OrderID_Id ?other"
    by (simp add: after_successful_run_eval main_orderID_def)
  from compensation_rejects_unknown_or_foreign
         [of ?creq "orders NewServers" ?rreq "payments NewServers"
             ?rreq' "payments after_successful_run"
             ?sreq "shipments NewServers" ?sreq' "shipments after_successful_run"]
  have "CancelOrder (orders NewServers) ?creq =
            Some (Inl (Errorf NotFound (''Order '' @ OrderID_Id main_orderID @ '' not found'')),
                  orders NewServers)
   \<and> RefundPayment (payments NewServers) ?rreq =
            Some (Inl (Errorf NotFound
                    (''Payment '' @ RefundPaymentRequest_PaymentId ?rreq @ '' not found'')),
                  payments NewServers)
   \<and> RefundPayment (payments after_successful_run) ?rreq' =
            Some (Inl (Errorf InvalidArgument
                    (''Payment '' @ RefundPaymentRequest_PaymentId ?rreq'
                       @ '' does not belong to order '' @ OrderID_Id ?other)),
                  payments after_successful_run)
   \<and> CancelShipping (shipments NewServers) ?sreq =
            Some (Inl (Errorf NotFound
                    (''Shipment '' @ CancelShippingRequest_ShipmentId ?sreq @ '' not found'')),
                  shipments NewServers)
   \<and> CancelShipping (shipments after_successful_run) ?sreq' =
            Some (Inl (Errorf InvalidArgument
                    (''Shipment '' @ CancelShippingRequest_ShipmentId ?sreq'
                       @ '' does not belong to order '' @ OrderID_Id ?other)),
                  shipments after_successful_run)"
    using a b c d e by blast
  then show ?thesis
    by (simp add: main_orderID_def)
qed

text \<open>
  \<^bold>\<open>C8\<close> as first stated speaks of every compensation call.  The RefundPayment request
  below names a payment id under which nothing is stored, and carries no order id: the
  handler panics instead of answering NotFound.
\<close>

theorem refund_without_order_id_panics:
  "payments NewServers ''pay-order-user-123'' = None
   \<and> RefundPayment (payments NewServers)
        \<lparr> RefundPaymentRequest_OrderId = None,
          RefundPaymentRequest_PaymentId = ''pay-order-user-123'' \<rparr> = None"
  by (simp add: RefundPayment_def NewServers_def)

text \<open>
  \<^bold>\<open>C9\<close> (amended).  For a request that carries its order id and its payment info,
  ProcessPayment returns a response on every attempt and stores a payment record under
  the returned id, with the request's order id and amount and the returned status:
  SUCCESS when the draw exceeds 2, FAILED otherwise.  For a request that carries its order
  id and its address, ArrangeShipping either returns an error, exactly when the draw does
  not exceed 1, and then leaves the map unchanged; or it returns a response and the map
  holds a SHIPPED record under the returned id.  A request that lacks one of these
  sub-messages makes the handler panic in its first two lines, before the draw and
  before anything is stored.
\<close>

theorem payment_always_stored_shipment_only_on_success:
  "(\<forall>oid info. ProcessPaymentRequest_OrderId req = Some oid
        \<and> ProcessPaymentRequest_PaymentInfo req = Some info
      \<longrightarrow> (\<exists>resp pay.
            ProcessPayment s intn req
              = Some (Inr resp, s(ProcessPaymentResponse_PaymentId resp \<mapsto> pay))
            \<and> Payment_Id pay = ProcessPaymentResponse_PaymentId resp
            \<and> Payment_OrderId pay = oid
            \<and> Payment_Amount pay = PaymentInfo_Amount info
            \<and> Payment_Status pay = ProcessPaymentResponse_Status resp
            \<and> ProcessPaymentResponse_Status resp =
                (if intn > 2 then PaymentStatus_SUCCESS else PaymentStatus_FAILED)))
   \<and> (\<forall>oid address. ArrangeShippingRequest_OrderId areq = Some oid
        \<and> ArrangeShippingRequest_Address areq = Some address
      \<longrightarrow> (case ArrangeShipping t intn' areq of
            None \<Rightarrow> False
          | Some (Inl err, t') \<Rightarrow>
              \<not> intn' > 1 \<and> t' = t \<and> (\<exists>msg. err = Errorf Internal msg)
          | Some (Inr resp, t') \<Rightarrow>
              intn' > 1 \<and>
              (\<exists>sh. t' = t(ArrangeShippingResponse_ShipmentId resp \<mapsto> sh)
                 \<and> Shipment_Id sh = ArrangeShippingResponse_ShipmentId resp
                 \<and> Shipment_OrderId sh = oid
                 \<and> Shipment_Address sh = address
                 \<and> Shipment_Status sh = ShippingStatus_SHIPPED)))
   \<and> (ProcessPaymentRequest_OrderId ureq = None \<or> ProcessPaymentRequest_PaymentInfo ureq = None
      \<longrightarrow> ProcessPayment us uintn ureq = None)
   \<and> (ArrangeShippingRequest_OrderId uareq = None \<or> ArrangeShippingRequest_Address uareq = None
      \<longrightarrow> ArrangeShipping ut uintn' uareq = None)"
proof (intro conjI allI)
  fix oid info
  show "ProcessPaymentRequest_OrderId req = Some oid
        \<and> ProcessPaymentRequest_PaymentInfo req = Some info
      \<longrightarrow> (\<exists>resp pay.
            ProcessPayment s intn req
              = Some (Inr resp, s(ProcessPaymentResponse_PaymentId resp \<mapsto> pay))
            \<and> Payment_Id pay = ProcessPaymentResponse_PaymentId resp
            \<and> Payment_OrderId pay = oid
            \<and> Payment_Amount pay = PaymentInfo_Amount info
            \<and> Payment_Status pay = ProcessPaymentResponse_Status resp
            \<and> ProcessPaymentResponse_Status resp =
                (if intn > 2 then PaymentStatus_SUCCESS else PaymentStatus_FAILED))"
    by (auto simp add: ProcessPayment_def Let_def)
next
  fix oid address
  show "ArrangeShippingRequest_OrderId areq = Some oid
        \<and> ArrangeShippingRequest_Address areq = Some address
      \<longrightarrow> (case ArrangeShipping t intn' areq of
            None \<Rightarrow> False
          | Some (Inl err, t') \<Rightarrow>
              \<not> intn' > 1 \<and> t' = t \<and> (\<exists>msg. err = Errorf Internal msg)
          | Some (Inr resp, t') \<Rightarrow>
              intn' > 1 \<and>
              (\<exists>sh. t' = t(ArrangeShippingResponse_ShipmentId resp \<mapsto> sh)
                 \<and> Shipment_Id sh = ArrangeShippingResponse_ShipmentId resp
                 \<and> Shipment_OrderId sh = oid
                 \<and> Shipment_Address sh = address
                 \<and> Shipment_Status sh = ShippingStatus_SHIPPED))"
    by (auto simp add: ArrangeShipping_def Let_def)
next
  show "ProcessPaymentRequest_OrderId ureq = None \<or> ProcessPaymentRequest_PaymentInfo ureq = None
      \<longrightarrow> ProcessPayment us uintn ureq = None"
    by (auto simp add: ProcessPayment_def split: option.splits)
next
  show "ArrangeShippingRequest_OrderId uareq = None \<or> ArrangeShippingRequest_Address uareq = None
      \<longrightarrow> ArrangeShipping ut uintn' uareq = None"
    by (auto simp add: ArrangeShipping_def split: option.splits)
qed

text \<open>
  An instance on fresh servers: a payment that succeeds and is stored, a carrier failure
  that stores nothing, and two requests with a sub-message missing.
\<close>

theorem payment_always_stored_shipment_only_on_success_witness:
  "ProcessPayment (payments NewServers) 5
        \<lparr> ProcessPaymentRequest_OrderId = Some main_orderID,
          ProcessPaymentRequest_PaymentInfo = Some main_paymentInfo \<rparr>
     = Some (Inr \<lparr> ProcessPaymentResponse_PaymentId = ''pay-order-user-123'',
                   ProcessPaymentResponse_Status = PaymentStatus_SUCCESS,
                   ProcessPaymentResponse_Message = ''Payment processed successfully.'' \<rparr>,
             [''pay-order-user-123'' \<mapsto>
                \<lparr> Payment_Id = ''pay-order-user-123'', Payment_OrderId = main_orderID,
                  Payment_Amount = 0x42380000, Payment_Status = PaymentStatus_SUCCESS,
                  Payment_TransactionId = [] \<rparr>])
   \<and> ArrangeShipping (shipments NewServers) 0
        \<lparr> ArrangeShippingRequest_OrderId = Some main_orderID,
          ArrangeShippingRequest_Address = Some main_shippingAddress \<rparr>
     = Some (Inl (Errorf Internal
                    ''Failed to arrange shipping for order order-user-123: Carrier unavailable''),
             Map.empty)
   \<and> ProcessPayment (payments NewServers) 5
        \<lparr> ProcessPaymentRequest_OrderId = None,
          ProcessPaymentRequest_PaymentInfo = Some main_paymentInfo \<rparr> = None
   \<and> ArrangeShipping (shipments NewServers) 5
        \<lparr> ArrangeShippingRequest_OrderId = Some main_orderID,
          ArrangeShippingRequest_Address = None \<rparr> = None"
proof -
  let ?preq = "\<lparr> ProcessPaymentRequest_OrderId = Some main_orderID,
                 ProcessPaymentRequest_PaymentInfo = Some main_paymentInfo \<rparr>"
  let ?areq = "\<lparr> ArrangeShippingRequest_OrderId = Some main_orderID,
                 ArrangeShippingRequest_Address = Some main_shippingAddress \<rparr>"
  let ?pnil = "\<lparr> ProcessPaymentRequest_OrderId = None,
                  ProcessPaymentRequest_PaymentInfo = Some main_paymentInfo \<rparr>"
  let ?anil = "\<lparr> ArrangeShippingRequest_OrderId = Some main_orderID,
                  ArrangeShippingRequest_Address = None \<rparr>"
  have a: "ProcessPaymentRequest_OrderId ?preq = Some main_orderID
             \<and> ProcessPaymentRequest_PaymentInfo ?preq = Some main_paymentInfo"
    by simp
  have b: "ArrangeShippingRequest_OrderId ?areq = Some main_orderID
             \<and> ArrangeShippingRequest_Address ?areq = Some main_shippingAddress"
    by simp
  have c: "ProcessPaymentRequest_OrderId ?pnil = None
             \<or> ProcessPaymentRequest_PaymentInfo ?pnil = None"
    by simp
  have d: "ArrangeShippingRequest_OrderId ?anil = None
             \<or> ArrangeShippingRequest_Address ?anil = None"
    by simp
  note inst = payment_always_stored_shipment_only_on_success
         [where req = ?preq and s = "payments NewServers" and intn = 5
            and areq = ?areq and t = "shipments NewServers" and intn' = 0
            and ureq = ?pnil and us = "payments NewServers" and uintn = 5
            and uareq = ?anil and ut = "shipments NewServers" and uintn' = 5]
  from inst a have ea: "\<exists>resp pay.
            ProcessPayment (payments NewServers) 5 ?preq
              = Some (Inr resp, (payments NewServers)(ProcessPaymentResponse_PaymentId resp \<mapsto> pay))
            \<and> Payment_Id pay = ProcessPaymentResponse_PaymentId resp
            \<and> Payment_OrderId pay = main_orderID
            \<and> Payment_Amount pay = PaymentInfo_Amount main_paymentInfo
            \<and> Payment_Status pay = ProcessPaymentResponse_Status resp
            \<and> ProcessPaymentResponse_Status resp =
                (if (5::int) > 2 then PaymentStatus_SUCCESS else PaymentStatus_FAILED)"
    by blast
  from inst b have eb: "case ArrangeShipping (shipments NewServers) 0 ?areq of
            None \<Rightarrow> False
          | Some (Inl err, t') \<Rightarrow>
              \<not> (0::int) > 1 \<and> t' = shipments NewServers \<and> (\<exists>msg. err = Errorf Internal msg)
          | Some (Inr resp, t') \<Rightarrow>
              (0::int) > 1 \<and>
              (\<exists>sh. t' = (shipments NewServers)(ArrangeShippingResponse_ShipmentId resp \<mapsto> sh)
                 \<and> Shipment_Id sh = ArrangeShippingResponse_ShipmentId resp
                 \<and> Shipment_OrderId sh = main_orderID
                 \<and> Shipment_Address sh = main_shippingAddress
                 \<and> Shipment_Status sh = ShippingStatus_SHIPPED)"
    by blast
  from inst c have p0: "ProcessPayment (payments NewServers) 5 ?pnil = None"
    by blast
  from inst d have a0: "ArrangeShipping (shipments NewServers) 5 ?anil = None"
    by blast
  have p: "ProcessPayment (payments NewServers) 5 ?preq
     = Some (Inr \<lparr> ProcessPaymentResponse_PaymentId = ''pay-order-user-123'',
                   ProcessPaymentResponse_Status = PaymentStatus_SUCCESS,
                   ProcessPaymentResponse_Message = ''Payment processed successfully.'' \<rparr>,
             [''pay-order-user-123'' \<mapsto>
                \<lparr> Payment_Id = ''pay-order-user-123'', Payment_OrderId = main_orderID,
                  Payment_Amount = 0x42380000, Payment_Status = PaymentStatus_SUCCESS,
                  Payment_TransactionId = [] \<rparr>])"
    by (simp add: ProcessPayment_def Let_def NewServers_def main_orderID_def main_paymentInfo_def)
  have s: "ArrangeShipping (shipments NewServers) 0 ?areq
     = Some (Inl (Errorf Internal
                    ''Failed to arrange shipping for order order-user-123: Carrier unavailable''),
             Map.empty)"
    by (simp add: ArrangeShipping_def Let_def NewServers_def main_orderID_def)
  from ea eb p s p0 a0 show ?thesis
    by simp
qed

text \<open>
  \<^bold>\<open>C9\<close> as first stated has a payment record stored on every attempt.  The attempt below
  carries no payment info: the handler panics at \<open>req.PaymentInfo.Amount\<close>, and the
  payment server's map holds no record for the order afterwards.
\<close>

theorem payment_attempt_without_payment_info_stores_nothing:
  "ProcessPayment (payments NewServers) 5
     \<lparr> ProcessPaymentRequest_OrderId = Some main_orderID,
       ProcessPaymentRequest_PaymentInfo = None \<rparr> = None
   \<and> map_after (ProcessPayment (payments NewServers) 5
                   \<lparr> ProcessPaymentRequest_OrderId = Some main_orderID,
                     ProcessPaymentRequest_PaymentInfo = None \<rparr>)
        (payments NewServers) ''pay-order-user-123'' = None"
  by (simp add: ProcessPayment_def map_after_def NewServers_def)

text \<open>
  \<^bold>\<open>C10\<close> (amended).  For every request that carries its order details, and every map,
  CreateOrder returns no error: it returns the order id \<open>order-\<close> followed by the user id,
  with status PENDING, and stores under that id a PENDING record whose total is the
  float32 accumulation of \<open>calculateTotal\<close> over the items.  A later call for the same
  user id returns the same id and replaces whatever record was stored under it, so the
  status is PENDING again whatever it was.  A request without details makes the handler
  panic at \<open>req.Details.UserId\<close>.
\<close>

theorem CreateOrder_overwrites_pending:
  "CreateOrder accumulate s \<lparr> CreateOrderRequest_Details =
       Some \<lparr> OrderDetails_UserId = uid, OrderDetails_Items = items \<rparr> \<rparr> =
     Some (Inr \<lparr> CreateOrderResponse_OrderId = Some \<lparr> OrderID_Id = ''order-'' @ uid \<rparr>,
                 CreateOrderResponse_Status = OrderStatus_PENDING \<rparr>,
           s(''order-'' @ uid \<mapsto>
               \<lparr> Order_Id = ''order-'' @ uid, Order_UserId = uid, Order_Items = items,
                 Order_TotalAmount = calculateTotal accumulate items,
                 Order_Status = OrderStatus_PENDING \<rparr>))
   \<and> (\<forall>old items2.
        CreateOrder accumulate (s(''order-'' @ uid \<mapsto> old)) \<lparr> CreateOrderRequest_Details =
            Some \<lparr> OrderDetails_UserId = uid, OrderDetails_Items = items2 \<rparr> \<rparr> =
          Some (Inr \<lparr> CreateOrderResponse_OrderId = Some \<lparr> OrderID_Id = ''order-'' @ uid \<rparr>,
                      CreateOrderResponse_Status = OrderStatus_PENDING \<rparr>,
                s(''order-'' @ uid \<mapsto>
                    \<lparr> Order_Id = ''order-'' @ uid, Order_UserId = uid, Order_Items = items2,
                      Order_TotalAmount = calculateTotal accumulate items2,
                      Order_Status = OrderStatus_PENDING \<rparr>)))
   \<and> CreateOrder accumulate s \<lparr> CreateOrderRequest_Details = None \<rparr> = None"
  by (simp add: CreateOrder_def Let_def)

text \<open>
  An instance: a CANCELLED order is PENDING again after a second CreateOrder.
\<close>

theorem CreateOrder_overwrites_pending_witness:
  "map_option Order_Status (orders after_compensations ''order-user-123'')
     = Some OrderStatus_CANCELLED
   \<and> map_option fst (CreateOrder main_accumulate (orders after_compensations)
            \<lparr> CreateOrderRequest_Details = Some main_orderDetails \<rparr>)
     = Some (Inr \<lparr> CreateOrderResponse_OrderId = Some \<lparr> OrderID_Id = ''order-user-123'' \<rparr>,
                   CreateOrderResponse_Status = OrderStatus_PENDING \<rparr>)
   \<and> map_option Order_Status
        (map_after (CreateOrder main_accumulate (orders after_compensations)
                      \<lparr> CreateOrderRequest_Details = Some main_orderDetails \<rparr>)
           (orders after_compensations) ''order-user-123'')
     = Some OrderStatus_PENDING"
proof -
  have a: "map_option Order_Status (orders after_compensations ''order-user-123'')
             = Some OrderStatus_CANCELLED"
    by (simp add: after_compensations_eval)
  from CreateOrder_overwrites_pending
         [of main_accumulate "orders after_compensations" "''user-123''"
             "OrderDetails_Items main_orderDetails"]
  show ?thesis
    using a by (simp add: main_orderDetails_def map_after_def)
qed

text \<open>
  \<^bold>\<open>C10\<close> as first stated has CreateOrder return an id for every request.  For the
  request without details the handler panics, and the caller gets an error from the
  call.
\<close>

theorem CreateOrder_without_details_panics:
  "CreateOrder main_accumulate (orders NewServers) \<lparr> CreateOrderRequest_Details = None \<rparr>
     = None
   \<and> Order_CreateOrder (service_clients (all_delivered 5 5)) NewServers
        \<lparr> CreateOrderRequest_Details = None \<rparr>
     = (Inl (Errorf Unavailable ''error reading from server: EOF''), NewServers)"
  by (simp add: service_clients_sel rpc_def CreateOrder_def all_delivered_def NewServers_def)

end
